theory Spec2Isabelle
  imports Complex_Main "HOL-Library.Sublist"
begin

section \<open>Python values\<close>

text \<open>
  A Python \<open>str\<close> is a sequence of Unicode code points, so it is modelled as a list of
  natural numbers (one per code point) and not as a list of bytes: \<open>str.strip\<close> and the
  regular expression engine of \<open>re\<close> both work on code points. \<open>S\<close> turns an ASCII literal
  of the source into that representation; a non-ASCII code point of a source literal is
  written as its number.
\<close>

type_synonym pystr = "nat list"

definition S :: "string \<Rightarrow> pystr" where
  "S = map of_char"

text \<open>\<open>str(n)\<close> for an integer: decimal digits, with a minus sign when negative.\<close>

fun str_nat :: "nat \<Rightarrow> pystr" where
  "str_nat n = (if n < 10 then [48 + n] else str_nat (n div 10) @ [48 + n mod 10])"

declare str_nat.simps [simp del]

definition str_int :: "int \<Rightarrow> pystr" where
  "str_int i = (if i < 0 then 45 # str_nat (nat (- i)) else str_nat (nat i))"

text \<open>\<open>sep.join(xs)\<close>.\<close>

fun py_join :: "pystr \<Rightarrow> pystr list \<Rightarrow> pystr" where
  "py_join sep [] = []"
| "py_join sep [x] = x"
| "py_join sep (x # y # ys) = x @ sep @ py_join sep (y # ys)"

text \<open>
  The value returned by \<open>resp.json()\<close>: \<open>None\<close>, a bool, an int, a float, a str, a list
  or a dict with string keys (an association list in insertion order, keys distinct).
\<close>

datatype json =
    JNull
  | JBool bool
  | JInt int
  | JFloat real
  | JStr pystr
  | JArr "json list"
  | JObj "(pystr \<times> json) list"

text \<open>The exceptions of Python and of the libraries that the program does not catch.\<close>

datatype py_exc =
    KeyError
  | IndexError
  | TypeError
  | AttributeError
  | JSONDecodeError
  | JSONEncodeError
  | UnicodeEncodeError
  | TransportError pystr

text \<open>Truthiness, as tested by \<open>if x:\<close> and \<open>if not x:\<close>.\<close>

fun py_truthy :: "json \<Rightarrow> bool" where
  "py_truthy JNull = False"
| "py_truthy (JBool b) = b"
| "py_truthy (JInt i) = (i \<noteq> 0)"
| "py_truthy (JFloat r) = (r \<noteq> 0)"
| "py_truthy (JStr s) = (s \<noteq> [])"
| "py_truthy (JArr xs) = (xs \<noteq> [])"
| "py_truthy (JObj kvs) = (kvs \<noteq> [])"

text \<open>
  \<open>str(v)\<close> as used by an f-string and by \<open>typer.echo\<close>: the identity on a str. What
  Python prints for any other value is a parameter \<open>py_str\<close> of the model.
\<close>

definition fmt_value :: "(json \<Rightarrow> pystr) \<Rightarrow> json \<Rightarrow> pystr" where
  "fmt_value py_str v = (case v of JStr s \<Rightarrow> s | _ \<Rightarrow> py_str v)"

section \<open>Errors and results\<close>

text \<open>
  \<open>emit_error\<close> writes the error envelope to stderr and raises \<open>typer.Exit(code)\<close>; the
  record holds the four fields of the envelope, and the exit status is its \<open>code\<close>. Any
  other exception is not caught anywhere in the program: the process ends with a traceback.
  The texts that reach an error message are literals of the source, the text of a caught
  exception, a decoded header value and the decoded text of a body (\<open>resp.text\<close> replaces
  what it cannot decode); they are taken to be valid UTF-8, so that the serialisation of
  the error envelope does not raise.
\<close>

record error =
  message :: pystr
  code :: int
  retryable :: bool
  remediation :: pystr

datatype failure = Exit error | Uncaught py_exc

definition emit_error :: "pystr \<Rightarrow> int \<Rightarrow> bool \<Rightarrow> pystr \<Rightarrow> failure + 'a" where
  "emit_error msg c r rem =
     Inl (Exit \<lparr>message = msg, code = c, retryable = r, remediation = rem\<rparr>)"

definition error_envelope :: "error \<Rightarrow> json" where
  "error_envelope e =
     JObj [(S ''status'', JStr (S ''error'')),
           (S ''error'', JObj [(S ''message'', JStr (message e)),
                              (S ''code'', JInt (code e)),
                              (S ''retryable'', JBool (retryable e)),
                              (S ''remediation'', JStr (remediation e))])]"

text \<open>Sequencing of steps that may raise.\<close>

definition bind :: "failure + 'a \<Rightarrow> ('a \<Rightarrow> failure + 'b) \<Rightarrow> failure + 'b" where
  "bind m f = (case m of Inl e \<Rightarrow> Inl e | Inr x \<Rightarrow> f x)"

section \<open>Configuration (config.py)\<close>

datatype provider = Perplexity | Openrouter

definition provider_value :: "provider \<Rightarrow> pystr" where
  "provider_value p = (case p of Perplexity \<Rightarrow> S ''perplexity'' | Openrouter \<Rightarrow> S ''openrouter'')"

definition MODELS :: "provider \<Rightarrow> (pystr \<times> pystr) list" where
  "MODELS p = (case p of
       Perplexity \<Rightarrow> [(S ''ask'', S ''sonar-pro''),
                      (S ''research'', S ''sonar-deep-research''),
                      (S ''reason'', S ''sonar-reasoning-pro'')]
     | Openrouter \<Rightarrow> [(S ''ask'', S ''perplexity/sonar-pro''),
                      (S ''research'', S ''perplexity/sonar-deep-research''),
                      (S ''reason'', S ''perplexity/sonar-reasoning'')])"

definition BASE_URLS :: "provider \<Rightarrow> pystr" where
  "BASE_URLS p = (case p of
       Perplexity \<Rightarrow> S ''https://api.perplexity.ai''
     | Openrouter \<Rightarrow> S ''https://openrouter.ai/api/v1'')"

record settings =
  perplexity_api_key :: pystr
  openrouter_api_key :: pystr
  perplexity_base_url :: pystr
  perplexity_timeout_ms :: int

text \<open>
  \<open>keyring.get_password("perplexity", field_name)\<close>: it returns the stored password or
  \<open>None\<close>, or it raises (also when the \<open>keyring\<close> module cannot be imported).
\<close>

datatype keyring_result = KeyringRaises | KeyringReturns "pystr option"

text \<open>One iteration of the loop of \<open>Settings._keyring_fallback\<close>, for one field.\<close>

definition fallback_field :: "(pystr \<Rightarrow> keyring_result) \<Rightarrow> pystr \<Rightarrow> pystr \<Rightarrow> pystr" where
  "fallback_field keyring field_name current =
     (if current \<noteq> [] then current
      else case keyring field_name of
             KeyringReturns (Some val) \<Rightarrow> (if val \<noteq> [] then val else current)
           | KeyringReturns None \<Rightarrow> current
           | KeyringRaises \<Rightarrow> current)"

definition keyring_fallback :: "(pystr \<Rightarrow> keyring_result) \<Rightarrow> settings \<Rightarrow> settings" where
  "keyring_fallback keyring st =
     (let st1 = st\<lparr>perplexity_api_key :=
                     fallback_field keyring (S ''perplexity_api_key'') (perplexity_api_key st)\<rparr>;
          st2 = st1\<lparr>openrouter_api_key :=
                     fallback_field keyring (S ''openrouter_api_key'') (openrouter_api_key st1)\<rparr>
      in st2)"

definition api_key :: "settings \<Rightarrow> provider \<Rightarrow> pystr" where
  "api_key st p = (if p = Perplexity then perplexity_api_key st else openrouter_api_key st)"

definition base_url :: "settings \<Rightarrow> provider \<Rightarrow> pystr" where
  "base_url st p =
     (if perplexity_base_url st \<noteq> [] \<and> p = Perplexity then perplexity_base_url st
      else BASE_URLS p)"

section \<open>Helpers (main.py)\<close>

definition resolve_provider :: "settings \<Rightarrow> provider option \<Rightarrow> pystr \<Rightarrow> failure + provider" where
  "resolve_provider st prov command =
     (if command = S ''search'' then
        (if prov = Some Openrouter then
           emit_error
             (S ''The search command is only available via the Perplexity API (not OpenRouter).'')
             2 False (S ''Use --provider perplexity or set PERPLEXITY_API_KEY'')
         else Inr Perplexity)
      else case prov of
             Some p \<Rightarrow> Inr p
           | None \<Rightarrow>
               (if perplexity_api_key st \<noteq> [] then Inr Perplexity
                else if openrouter_api_key st \<noteq> [] then Inr Openrouter
                else Inr Perplexity))"

definition require_auth :: "settings \<Rightarrow> provider \<Rightarrow> failure + unit" where
  "require_auth st p =
     (if api_key st p = [] then
        (let var = (if p = Perplexity then S ''PERPLEXITY_API_KEY'' else S ''OPENROUTER_API_KEY'')
         in emit_error (var @ S '' not set'') 4 False
              (S ''Set '' @ var @ S '' env var or run: install.sh''))
      else Inr ())"

definition request_headers :: "settings \<Rightarrow> provider \<Rightarrow> (pystr \<times> pystr) list" where
  "request_headers st p =
     [(S ''Content-Type'', S ''application/json''),
      (S ''Authorization'', S ''Bearer '' @ api_key st p)]"

text \<open>
  \<open>str.strip()\<close> removes the leading and trailing code points that Python counts as
  whitespace: U+0009..U+000D, U+001C..U+0020, U+0085, U+00A0, U+1680, U+2000..U+200A,
  U+2028, U+2029, U+202F, U+205F and U+3000.
\<close>

definition py_isspace :: "nat \<Rightarrow> bool" where
  "py_isspace c =
     ((9 \<le> c \<and> c \<le> 13) \<or> (28 \<le> c \<and> c \<le> 32) \<or> c = 133 \<or> c = 160 \<or> c = 5760 \<or>
      (8192 \<le> c \<and> c \<le> 8202) \<or> c = 8232 \<or> c = 8233 \<or> c = 8239 \<or> c = 8287 \<or> c = 12288)"

definition py_strip :: "pystr \<Rightarrow> pystr" where
  "py_strip s = rev (dropWhile py_isspace (rev (dropWhile py_isspace s)))"

text \<open>
  \<open>re.sub(r"<think>.*?</think>", "", text, flags=re.DOTALL)\<close>. The engine scans the
  text from left to right. At a position where \<open><think>\<close> starts, the lazy \<open>.*?\<close> (which
  with DOTALL matches every code point, newlines included) extends to the first
  \<open></think>\<close> that follows; the match is replaced by the empty string and the scan goes on
  behind it. Where no match starts, the code point is kept and the scan moves one step.
  \<open>find_after pat s\<close> is the rest of \<open>s\<close> behind the leftmost occurrence of \<open>pat\<close>.
\<close>

definition open_tag :: pystr where
  "open_tag = S ''<think>''"

definition close_tag :: pystr where
  "close_tag = S ''</think>''"

fun find_after :: "'a list \<Rightarrow> 'a list \<Rightarrow> 'a list option" where
  "find_after pat [] = (if pat = [] then Some [] else None)"
| "find_after pat (c # cs) =
     (if prefix pat (c # cs) then Some (drop (length pat) (c # cs)) else find_after pat cs)"

function re_sub_think :: "pystr \<Rightarrow> pystr" where
  "re_sub_think [] = []"
| "re_sub_think (c # cs) =
     (if prefix open_tag (c # cs) then
        (case find_after close_tag (drop (length open_tag) (c # cs)) of
           Some rest \<Rightarrow> re_sub_think rest
         | None \<Rightarrow> c # re_sub_think cs)
      else c # re_sub_think cs)"
  by pat_completeness auto
termination
proof (relation "measure length")
  show "wf (measure length)" by simp
next
  fix c :: nat and cs rest :: pystr
  assume p: "prefix open_tag (c # cs)"
    and f: "find_after close_tag (drop (length open_tag) (c # cs)) = Some rest"
  have shorter: "length r \<le> length s" if "find_after pat s = Some r" for pat s r :: pystr
    using that by (induction s arbitrary: r) (auto split: if_splits)
  have "length open_tag = 7" by (simp add: open_tag_def S_def)
  then have "length (drop (length open_tag) (c # cs)) < length (c # cs)" by simp
  with shorter [OF f] show "(rest, c # cs) \<in> measure length" by simp
qed auto

definition strip_thinking :: "pystr \<Rightarrow> pystr" where
  "strip_thinking text' = py_strip (re_sub_think text')"

text \<open>Iteration, \<open>len\<close>, subscripts, \<open>dict.get\<close> and \<open>+\<close> on the values of a parsed body.\<close>

fun py_iter :: "json \<Rightarrow> failure + json list" where
  "py_iter (JArr xs) = Inr xs"
| "py_iter (JStr s) = Inr (map (\<lambda>c. JStr [c]) s)"
| "py_iter (JObj kvs) = Inr (map (\<lambda>kv. JStr (fst kv)) kvs)"
| "py_iter v = Inl (Uncaught TypeError)"

fun py_len :: "json \<Rightarrow> failure + nat" where
  "py_len (JArr xs) = Inr (length xs)"
| "py_len (JStr s) = Inr (length s)"
| "py_len (JObj kvs) = Inr (length kvs)"
| "py_len v = Inl (Uncaught TypeError)"

fun py_getitem_key :: "json \<Rightarrow> pystr \<Rightarrow> failure + json" where
  "py_getitem_key (JObj kvs) k =
     (case map_of kvs k of Some v \<Rightarrow> Inr v | None \<Rightarrow> Inl (Uncaught KeyError))"
| "py_getitem_key v k = Inl (Uncaught TypeError)"

fun py_getitem_0 :: "json \<Rightarrow> failure + json" where
  "py_getitem_0 (JArr []) = Inl (Uncaught IndexError)"
| "py_getitem_0 (JArr (x # xs)) = Inr x"
| "py_getitem_0 (JStr []) = Inl (Uncaught IndexError)"
| "py_getitem_0 (JStr (c # cs)) = Inr (JStr [c])"
| "py_getitem_0 (JObj kvs) = Inl (Uncaught KeyError)"
| "py_getitem_0 v = Inl (Uncaught TypeError)"

fun py_get :: "json \<Rightarrow> pystr \<Rightarrow> json \<Rightarrow> failure + json" where
  "py_get (JObj kvs) k dflt = Inr (case map_of kvs k of Some v \<Rightarrow> v | None \<Rightarrow> dflt)"
| "py_get v k dflt = Inl (Uncaught AttributeError)"

fun py_add :: "json \<Rightarrow> pystr \<Rightarrow> failure + pystr" where
  "py_add (JStr s) t = Inr (s @ t)"
| "py_add v t = Inl (Uncaught TypeError)"

text \<open>\<open>_strip_thinking(content)\<close>: \<open>re.sub\<close> raises TypeError when the content is not a str.\<close>

fun strip_thinking_value :: "json \<Rightarrow> failure + json" where
  "strip_thinking_value (JStr s) = Inr (JStr (strip_thinking s))"
| "strip_thinking_value v = Inl (Uncaught TypeError)"

definition format_citations :: "(json \<Rightarrow> pystr) \<Rightarrow> json \<Rightarrow> failure + pystr" where
  "format_citations py_str citations =
     (if \<not> py_truthy citations then Inr []
      else bind (py_iter citations) (\<lambda>items.
        let lines = map (\<lambda>(i, url). S ''['' @ str_nat (i + 1) @ S ''] '' @ fmt_value py_str url)
                        (enumerate 0 items)
        in Inr (S ''\<newline>\<newline>Citations:\<newline>'' @ py_join (S ''\<newline>'') lines)))"

section \<open>Requests and the classification of their outcome\<close>

text \<open>
  A response as the program reads it: the status, the header lookup (\<open>resp.headers.get\<close>,
  which ignores the case of the name; the map is keyed by the lower-case name), the text
  of the body and what \<open>resp.json()\<close> returns (\<open>None\<close> here when the body is not JSON, where
  \<open>resp.json()\<close> raises). \<open>httpx.post\<close> returns a response or raises: a timeout, a connection
  error, or another transport error that the program does not catch.
\<close>

record response =
  status_code :: int
  headers :: "pystr \<rightharpoonup> pystr"
  body_text :: pystr
  body_json :: "json option"

datatype http_result =
    TimeoutException
  | ConnectError pystr
  | OtherTransportError pystr
  | Response response

type_synonym http_post = "pystr \<Rightarrow> (pystr \<times> pystr) list \<Rightarrow> json \<Rightarrow> real \<Rightarrow> http_result"

text \<open>The \<open>except\<close> clauses and the status checks of \<open>_chat_request\<close>.\<close>

definition chat_outcome :: "http_result \<Rightarrow> failure + json" where
  "chat_outcome r = (case r of
       TimeoutException \<Rightarrow>
         emit_error (S ''Request timed out'') 7 True
           (S ''Increase PERPLEXITY_TIMEOUT_MS or try again'')
     | ConnectError e \<Rightarrow> emit_error (S ''Connection error: '' @ e) 9 True []
     | OtherTransportError e \<Rightarrow> Inl (Uncaught (TransportError e))
     | Response resp \<Rightarrow>
         (if status_code resp = 429 then
            (let retry_after = (case headers resp (S ''retry-after'') of
                                  Some v \<Rightarrow> v | None \<Rightarrow> S ''unknown'')
             in emit_error (S ''Rate limited. Retry after '' @ retry_after @ S ''s'') 8 True [])
          else if status_code resp = 401 then
            emit_error (S ''Authentication failed '' @ [8212] @ S '' invalid API key'') 4 False
              (S ''Check your API key'')
          else if status_code resp \<ge> 400 then
            emit_error (S ''API error '' @ str_int (status_code resp) @ S '': '' @ body_text resp)
              9 (status_code resp \<ge> 500) []
          else (case body_json resp of
                  Some j \<Rightarrow> Inr j
                | None \<Rightarrow> Inl (Uncaught JSONDecodeError))))"

definition chat_request ::
  "http_post \<Rightarrow> settings \<Rightarrow> provider \<Rightarrow> pystr \<Rightarrow> json list \<Rightarrow> int \<Rightarrow> failure + json" where
  "chat_request post st prov model messages timeout_ms =
     (let url = base_url st prov @ S ''/chat/completions'';
          body = JObj [(S ''model'', JStr model), (S ''messages'', JArr messages)];
          timeout = real_of_int timeout_ms / 1000
      in chat_outcome (post url (request_headers st prov) body timeout))"

text \<open>The \<open>except\<close> clauses and the status checks of \<open>_search_request\<close>.\<close>

definition search_outcome :: "http_result \<Rightarrow> failure + json" where
  "search_outcome r = (case r of
       TimeoutException \<Rightarrow> emit_error (S ''Request timed out'') 7 True []
     | ConnectError e \<Rightarrow> emit_error (S ''Connection error: '' @ e) 9 True []
     | OtherTransportError e \<Rightarrow> Inl (Uncaught (TransportError e))
     | Response resp \<Rightarrow>
         (if status_code resp = 429 then
            (let retry_after = (case headers resp (S ''retry-after'') of
                                  Some v \<Rightarrow> v | None \<Rightarrow> S ''unknown'')
             in emit_error (S ''Rate limited. Retry after '' @ retry_after @ S ''s'') 8 True [])
          else if status_code resp = 401 then
            emit_error (S ''Authentication failed '' @ [8212] @ S '' invalid API key'') 4 False []
          else if status_code resp \<ge> 400 then
            emit_error (S ''API error '' @ str_int (status_code resp) @ S '': '' @ body_text resp)
              9 (status_code resp \<ge> 500) []
          else (case body_json resp of
                  Some j \<Rightarrow> Inr j
                | None \<Rightarrow> Inl (Uncaught JSONDecodeError))))"

definition search_request ::
  "http_post \<Rightarrow> settings \<Rightarrow> pystr \<Rightarrow> int \<Rightarrow> int \<Rightarrow> pystr option \<Rightarrow> int \<Rightarrow> failure + json" where
  "search_request post st query max_results max_tokens_per_page country timeout_ms =
     (let url = base_url st Perplexity @ S ''/search'';
          body = [(S ''query'', JStr query),
                  (S ''max_results'', JInt max_results),
                  (S ''max_tokens_per_page'', JInt max_tokens_per_page)]
                 @ (case country of
                      Some c \<Rightarrow> (if c \<noteq> [] then [(S ''country'', JStr c)] else [])
                    | None \<Rightarrow> []);
          timeout = real_of_int timeout_ms / 1000
      in search_outcome (post url (request_headers st Perplexity) (JObj body) timeout))"

section \<open>Output\<close>

datatype format = Json | Text

text \<open>
  What a successful write puts on stdout: the record \<open>orjson.dumps(data) + b"\n"\<close> of a
  value, or the text that was handed to \<open>typer.echo\<close>, which writes it and a newline
  (click leaves ANSI escape sequences out of what it writes when stdout is no terminal; the
  model records the text handed over). The stream is taken to be open: a closed pipe is
  outside the model.
\<close>

datatype stdout = StdoutJson json | StdoutEcho pystr

text \<open>
  Both writes can raise, and the program catches neither exception.

  \<open>orjson.dumps\<close> raises JSONEncodeError (a TypeError) on an integer outside 64 bits, that
  is below \<open>-2^63\<close> or above \<open>2^64 - 1\<close>, and on a str, also a key, that is not valid UTF-8,
  that is one that holds a surrogate code point (U+D800..U+DFFF); a body parsed by
  \<open>resp.json()\<close> can hold both. It also raises when the value is nested deeper than the
  recursion limit of the library; that limit is a parameter, \<open>orjson_nests\<close>.

  \<open>typer.echo\<close> writes to the text stream \<open>sys.stdout\<close>, which raises UnicodeEncodeError
  when its encoder rejects the text. Which texts the stream encodes depends on its encoding
  and its error handler, so it is a parameter, \<open>stdout_encodes\<close>; with the default of
  Python, UTF-8 and the strict handler, these are the texts without a surrogate.
\<close>

record runtime =
  orjson_nests :: "json \<Rightarrow> bool"
  stdout_encodes :: "pystr \<Rightarrow> bool"

definition is_surrogate :: "nat \<Rightarrow> bool" where
  "is_surrogate c = (55296 \<le> c \<and> c \<le> 57343)"

definition valid_utf8 :: "pystr \<Rightarrow> bool" where
  "valid_utf8 s = list_all (\<lambda>c. \<not> is_surrogate c) s"

fun orjson_value_ok :: "json \<Rightarrow> bool" where
  "orjson_value_ok JNull = True"
| "orjson_value_ok (JBool b) = True"
| "orjson_value_ok (JInt i) = (- (2 ^ 63) \<le> i \<and> i < 2 ^ 64)"
| "orjson_value_ok (JFloat r) = True"
| "orjson_value_ok (JStr s) = valid_utf8 s"
| "orjson_value_ok (JArr xs) = list_all orjson_value_ok xs"
| "orjson_value_ok (JObj kvs) =
     (list_all valid_utf8 (map fst kvs) \<and> list_all orjson_value_ok (map snd kvs))"

definition orjson_dumps_ok :: "runtime \<Rightarrow> json \<Rightarrow> bool" where
  "orjson_dumps_ok rt v = (orjson_value_ok v \<and> orjson_nests rt v)"

text \<open>\<open>sys.stdout.buffer.write(orjson.dumps(data) + b"\n")\<close>.\<close>

definition write_json :: "runtime \<Rightarrow> json \<Rightarrow> failure + stdout list" where
  "write_json rt data =
     (if orjson_dumps_ok rt data then Inr [StdoutJson data]
      else Inl (Uncaught JSONEncodeError))"

text \<open>
  \<open>typer.echo(message)\<close> for a str, and a run of such calls one after the other: the run
  ends at the first text that the stream rejects (a failure records the exception only, not
  the lines that were written before it; each command below writes at most once).
\<close>

definition echo :: "runtime \<Rightarrow> pystr \<Rightarrow> failure + stdout list" where
  "echo rt message' =
     (if stdout_encodes rt message' then Inr [StdoutEcho message']
      else Inl (Uncaught UnicodeEncodeError))"

definition echo_each :: "runtime \<Rightarrow> pystr list \<Rightarrow> failure + stdout list" where
  "echo_each rt messages =
     (if list_all (stdout_encodes rt) messages then Inr (map StdoutEcho messages)
      else Inl (Uncaught UnicodeEncodeError))"

text \<open>
  The text that \<open>typer.echo(message)\<close> writes for a value: the message when it is a str,
  nothing when it is \<open>None\<close>, and \<open>str(message)\<close> otherwise.
\<close>

definition echo_text :: "(json \<Rightarrow> pystr) \<Rightarrow> json \<Rightarrow> pystr" where
  "echo_text py_str v = (case v of JNull \<Rightarrow> [] | JStr s \<Rightarrow> s | _ \<Rightarrow> py_str v)"

definition emit :: "(json \<Rightarrow> pystr) \<Rightarrow> runtime \<Rightarrow> json \<Rightarrow> format \<Rightarrow> failure + stdout list" where
  "emit py_str rt data fmt =
     (if fmt = Json then write_json rt data
      else case data of
             JObj kvs \<Rightarrow>
               (case map_of kvs (S ''data'') of
                  Some payload \<Rightarrow>
                    (case payload of
                       JStr s \<Rightarrow> echo rt s
                     | JObj items \<Rightarrow>
                         echo_each rt (map (\<lambda>(k, v). k @ S '': '' @ fmt_value py_str v) items)
                     | JArr items \<Rightarrow> echo_each rt (map (echo_text py_str) items)
                     | _ \<Rightarrow> Inr [])
                | None \<Rightarrow> echo rt (echo_text py_str data))
           | _ \<Rightarrow> echo rt (echo_text py_str data))"

section \<open>Commands\<close>

text \<open>The message list that \<open>ask\<close>, \<open>research\<close> and \<open>reason\<close> build.\<close>

definition chat_messages :: "pystr option \<Rightarrow> pystr \<Rightarrow> json list" where
  "chat_messages system query =
     (case system of
        Some s \<Rightarrow> (if s \<noteq> [] then [JObj [(S ''role'', JStr (S ''system'')), (S ''content'', JStr s)]]
                   else [])
      | None \<Rightarrow> [])
     @ [JObj [(S ''role'', JStr (S ''user'')), (S ''content'', JStr query)]]"

text \<open>\<open>MODELS[prov][command]\<close>.\<close>

definition lookup_model :: "provider \<Rightarrow> pystr \<Rightarrow> failure + pystr" where
  "lookup_model prov command =
     (case map_of (MODELS prov) command of
        Some m \<Rightarrow> Inr m
      | None \<Rightarrow> Inl (Uncaught KeyError))"

text \<open>\<open>data["choices"][0]["message"]["content"]\<close>.\<close>

definition chat_content :: "json \<Rightarrow> failure + json" where
  "chat_content data =
     bind (py_getitem_key data (S ''choices'')) (\<lambda>choices.
     bind (py_getitem_0 choices) (\<lambda>choice.
     bind (py_getitem_key choice (S ''message'')) (\<lambda>msg.
     py_getitem_key msg (S ''content''))))"

text \<open>The last statement of the three chat commands: echo the text, or emit the envelope.\<close>

definition chat_output ::
  "(json \<Rightarrow> pystr) \<Rightarrow> runtime \<Rightarrow> format \<Rightarrow> pystr \<Rightarrow> json \<Rightarrow> pystr \<Rightarrow> provider \<Rightarrow> json
     \<Rightarrow> failure + stdout list"
  where
  "chat_output py_str rt fmt response_text data model prov citations =
     (if fmt = Text then echo rt response_text
      else
        bind (py_get data (S ''model'') (JStr model)) (\<lambda>model_name.
        bind (py_get data (S ''usage'') JNull) (\<lambda>usage.
        emit py_str rt
          (JObj [(S ''status'', JStr (S ''success'')),
                 (S ''data'', JObj [(S ''response'', JStr response_text),
                                   (S ''model'', model_name),
                                   (S ''provider'', JStr (provider_value prov)),
                                   (S ''citations'', citations),
                                   (S ''usage'', usage)])])
          fmt)))"

definition ask ::
  "(json \<Rightarrow> pystr) \<Rightarrow> runtime \<Rightarrow> http_post \<Rightarrow> settings \<Rightarrow> pystr \<Rightarrow> pystr option \<Rightarrow> provider option \<Rightarrow> format
     \<Rightarrow> failure + stdout list" where
  "ask py_str rt post st query system provider' fmt =
     bind (resolve_provider st provider' (S ''ask'')) (\<lambda>prov.
     bind (require_auth st prov) (\<lambda>u.
     bind (lookup_model prov (S ''ask'')) (\<lambda>model.
     bind (chat_request post st prov model (chat_messages system query)
             (perplexity_timeout_ms st)) (\<lambda>data.
     bind (chat_content data) (\<lambda>content.
     bind (py_get data (S ''citations'') (JArr [])) (\<lambda>citations.
     bind (format_citations py_str citations) (\<lambda>block.
     bind (py_add content block) (\<lambda>response_text.
     chat_output py_str rt fmt response_text data model prov citations))))))))"

definition research ::
  "(json \<Rightarrow> pystr) \<Rightarrow> runtime \<Rightarrow> http_post \<Rightarrow> settings \<Rightarrow> pystr \<Rightarrow> pystr option \<Rightarrow> bool \<Rightarrow> provider option
     \<Rightarrow> format \<Rightarrow> failure + stdout list" where
  "research py_str rt post st query system strip_thinking' provider' fmt =
     bind (resolve_provider st provider' (S ''research'')) (\<lambda>prov.
     bind (require_auth st prov) (\<lambda>u.
     bind (lookup_model prov (S ''research'')) (\<lambda>model.
     bind (chat_request post st prov model (chat_messages system query)
             (perplexity_timeout_ms st)) (\<lambda>data.
     bind (chat_content data) (\<lambda>content.
     bind (if strip_thinking' then strip_thinking_value content else Inr content) (\<lambda>content.
     bind (py_get data (S ''citations'') (JArr [])) (\<lambda>citations.
     bind (format_citations py_str citations) (\<lambda>block.
     bind (py_add content block) (\<lambda>response_text.
     chat_output py_str rt fmt response_text data model prov citations)))))))))"

definition reason ::
  "(json \<Rightarrow> pystr) \<Rightarrow> runtime \<Rightarrow> http_post \<Rightarrow> settings \<Rightarrow> pystr \<Rightarrow> pystr option \<Rightarrow> bool \<Rightarrow> provider option
     \<Rightarrow> format \<Rightarrow> failure + stdout list" where
  "reason py_str rt post st query system strip_thinking' provider' fmt =
     bind (resolve_provider st provider' (S ''reason'')) (\<lambda>prov.
     bind (require_auth st prov) (\<lambda>u.
     bind (lookup_model prov (S ''reason'')) (\<lambda>model.
     bind (chat_request post st prov model (chat_messages system query)
             (perplexity_timeout_ms st)) (\<lambda>data.
     bind (chat_content data) (\<lambda>content.
     bind (if strip_thinking' then strip_thinking_value content else Inr content) (\<lambda>content.
     bind (py_get data (S ''citations'') (JArr [])) (\<lambda>citations.
     bind (format_citations py_str citations) (\<lambda>block.
     bind (py_add content block) (\<lambda>response_text.
     chat_output py_str rt fmt response_text data model prov citations)))))))))"

text \<open>
  The loop of \<open>search\<close> over \<open>enumerate(results, 1)\<close>; \<open>lines\<close> is the list built so far.
  \<open>r.get\<close> raises AttributeError when an entry is not a dict. The bounds on
  \<open>--max-results\<close> and \<open>--max-tokens\<close> are checked by typer before \<open>search\<close> is entered;
  they are no part of the function.
\<close>

fun search_lines ::
  "(json \<Rightarrow> pystr) \<Rightarrow> pystr list \<Rightarrow> (nat \<times> json) list \<Rightarrow> failure + pystr list" where
  "search_lines py_str lines [] = Inr lines"
| "search_lines py_str lines ((i, r) # rest) =
     bind (py_get r (S ''title'') (JStr (S ''Untitled''))) (\<lambda>title.
     bind (py_get r (S ''url'') (JStr [])) (\<lambda>url.
     bind (py_get r (S ''snippet'') JNull) (\<lambda>snippet.
     bind (py_get r (S ''date'') JNull) (\<lambda>date.
     search_lines py_str
       (lines
        @ [str_nat i @ S ''. **'' @ fmt_value py_str title @ S ''**'']
        @ [S ''   URL: '' @ fmt_value py_str url]
        @ (if py_truthy snippet then [S ''   '' @ fmt_value py_str snippet] else [])
        @ (if py_truthy date then [S ''   Date: '' @ fmt_value py_str date] else [])
        @ [S ''''])
       rest))))"

definition search ::
  "(json \<Rightarrow> pystr) \<Rightarrow> runtime \<Rightarrow> http_post \<Rightarrow> settings \<Rightarrow> pystr \<Rightarrow> int \<Rightarrow> int
     \<Rightarrow> pystr option \<Rightarrow> format \<Rightarrow> failure + stdout list" where
  "search py_str rt post st query max_results max_tokens_per_page country fmt =
     bind (require_auth st Perplexity) (\<lambda>u.
     bind (search_request post st query max_results max_tokens_per_page country
             (perplexity_timeout_ms st)) (\<lambda>data.
     bind (py_get data (S ''results'') (JArr [])) (\<lambda>results.
     if fmt = Text then
       (if \<not> py_truthy results then echo rt (S ''No results found.'')
        else
          bind (py_len results) (\<lambda>n.
          bind (py_iter results) (\<lambda>entries.
          bind (search_lines py_str
                  [S ''Found '' @ str_nat n @ S '' search results:\<newline>'']
                  (enumerate 1 entries)) (\<lambda>lines.
          echo rt (py_join (S ''\<newline>'') lines)))))
     else
       bind (py_len results) (\<lambda>n.
       emit py_str rt
         (JObj [(S ''status'', JStr (S ''success'')),
                (S ''data'', results),
                (S ''metadata'', JObj [(S ''count'', JInt (int n)),
                                       (S ''query'', JStr query)])])
         fmt))))"

section \<open>Notions used in the statements\<close>

text \<open>
  A result is a structured error with a given exit code and retry flag; the message of a
  structured error.
\<close>

definition fails_with :: "failure + 'a \<Rightarrow> int \<Rightarrow> bool \<Rightarrow> bool" where
  "fails_with r c rt =
     (case r of Inl (Exit e) \<Rightarrow> code e = c \<and> retryable e = rt | _ \<Rightarrow> False)"


text \<open>The name under which the secret of a provider is stored.\<close>

definition secret_field :: "provider \<Rightarrow> pystr" where
  "secret_field p =
     (case p of Perplexity \<Rightarrow> S ''perplexity_api_key'' | Openrouter \<Rightarrow> S ''openrouter_api_key'')"

text \<open>
  A text contains the opening tag; a text contains a block, that is an opening tag with a
  closing tag somewhere behind it (if some opening tag has one, the leftmost has).
\<close>

definition has_open_tag :: "pystr \<Rightarrow> bool" where
  "has_open_tag s = (find_after open_tag s \<noteq> None)"

definition has_think_block :: "pystr \<Rightarrow> bool" where
  "has_think_block s =
     (case find_after open_tag s of
        None \<Rightarrow> False
      | Some rest \<Rightarrow> find_after close_tag rest \<noteq> None)"

text \<open>The citation block for a list of URLs, in the words of the specification.\<close>

definition citation_line :: "nat \<Rightarrow> pystr \<Rightarrow> pystr" where
  "citation_line k url = S ''['' @ str_nat k @ S ''] '' @ url"

definition citation_block :: "pystr list \<Rightarrow> pystr" where
  "citation_block urls =
     (if urls = [] then []
      else S ''\<newline>\<newline>Citations:\<newline>''
           @ py_join (S ''\<newline>'') (map (\<lambda>k. citation_line (k + 1) (urls ! k)) [0..<length urls]))"

text \<open>
  The request of a chat command succeeds: the provider is resolved to \<open>prov\<close>, its key is
  present, the model is \<open>model\<close> and the request returns the parsed body \<open>data\<close>.
\<close>

definition chat_succeeds ::
  "settings \<Rightarrow> http_post \<Rightarrow> pystr \<Rightarrow> provider option \<Rightarrow> pystr option \<Rightarrow> pystr
     \<Rightarrow> provider \<Rightarrow> pystr \<Rightarrow> json \<Rightarrow> bool" where
  "chat_succeeds st post command provider' system query prov model data =
     (resolve_provider st provider' command = Inr prov
      \<and> api_key st prov \<noteq> []
      \<and> lookup_model prov command = Inr model
      \<and> chat_request post st prov model (chat_messages system query)
            (perplexity_timeout_ms st) = Inr data)"

text \<open>The value of a key of a dict, or a default.\<close>

definition field_or :: "(pystr \<times> json) list \<Rightarrow> pystr \<Rightarrow> json \<Rightarrow> json" where
  "field_or kvs k dflt = (case map_of kvs k of Some v \<Rightarrow> v | None \<Rightarrow> dflt)"

text \<open>
  The success envelope of a chat command, and a key of the parsed body with its default.
\<close>

definition chat_envelope :: "pystr \<Rightarrow> json \<Rightarrow> provider \<Rightarrow> json \<Rightarrow> json \<Rightarrow> json" where
  "chat_envelope response_text model_name prov citations usage =
     JObj [(S ''status'', JStr (S ''success'')),
           (S ''data'', JObj [(S ''response'', JStr response_text),
                             (S ''model'', model_name),
                             (S ''provider'', JStr (provider_value prov)),
                             (S ''citations'', citations),
                             (S ''usage'', usage)])]"

definition body_field :: "json \<Rightarrow> pystr \<Rightarrow> json \<Rightarrow> json" where
  "body_field data k dflt = (case data of JObj kvs \<Rightarrow> field_or kvs k dflt | _ \<Rightarrow> dflt)"

text \<open>
  The lines that the text listing of \<open>search\<close> holds for one result: the index and the
  title between \<open>**\<close>, the URL, the snippet and the date when present, and an empty line.
\<close>

definition entry_block :: "(json \<Rightarrow> pystr) \<Rightarrow> nat \<Rightarrow> (pystr \<times> json) list \<Rightarrow> pystr list" where
  "entry_block py_str i kvs =
     [str_nat i @ S ''. **'' @ fmt_value py_str (field_or kvs (S ''title'') (JStr (S ''Untitled'')))
        @ S ''**'',
      S ''   URL: '' @ fmt_value py_str (field_or kvs (S ''url'') (JStr []))]
     @ (if py_truthy (field_or kvs (S ''snippet'') JNull)
        then [S ''   '' @ fmt_value py_str (field_or kvs (S ''snippet'') JNull)] else [])
     @ (if py_truthy (field_or kvs (S ''date'') JNull)
        then [S ''   Date: '' @ fmt_value py_str (field_or kvs (S ''date'') JNull)] else [])
     @ [S '''']"

subsection \<open>Example inputs\<close>

definition only_openrouter :: settings where
  "only_openrouter = \<lparr>perplexity_api_key = [], openrouter_api_key = S ''or-key'',
      perplexity_base_url = [], perplexity_timeout_ms = 300000\<rparr>"

definition no_keys :: settings where
  "no_keys = \<lparr>perplexity_api_key = [], openrouter_api_key = [],
      perplexity_base_url = [], perplexity_timeout_ms = 300000\<rparr>"

definition failing_keyring :: "pystr \<Rightarrow> keyring_result" where
  "failing_keyring field_name =
     (if field_name = S ''openrouter_api_key'' then KeyringReturns (Some (S ''stored''))
      else KeyringRaises)"



text \<open>
  The depth of nesting of a value, and an example runtime: an orjson that serialises up to
  254 levels, and a stdout with the default of Python, UTF-8 and the strict error handler.
\<close>

fun json_depth :: "json \<Rightarrow> nat" where
  "json_depth (JArr xs) = Suc (fold max (map json_depth xs) 0)"
| "json_depth (JObj kvs) = Suc (fold max (map json_depth (map snd kvs)) 0)"
| "json_depth v = 0"

definition default_runtime :: runtime where
  "default_runtime = \<lparr>orjson_nests = (\<lambda>v. json_depth v \<le> 254), stdout_encodes = valid_utf8\<rparr>"

definition both_keys :: settings where
  "both_keys = \<lparr>perplexity_api_key = S ''pplx-key'', openrouter_api_key = S ''or-key'',
      perplexity_base_url = [], perplexity_timeout_ms = 300000\<rparr>"

definition py_str_stub :: "json \<Rightarrow> pystr" where
  "py_str_stub v = S ''?''"

text \<open>
  An HTTP layer on which every request has the given outcome; one that answers every
  request with the given response.
\<close>

definition answer :: "http_result \<Rightarrow> http_post" where
  "answer outcome url hdrs body timeout = outcome"

definition reply :: "response \<Rightarrow> http_post" where
  "reply r = answer (Response r)"

text \<open>Replies with status 200: the parsed bodies, and the responses that carry them.\<close>

definition empty_body :: response where
  "empty_body = \<lparr>status_code = 200, headers = Map.empty, body_text = S ''{}'',
      body_json = Some (JObj [])\<rparr>"

definition no_choices_data :: json where
  "no_choices_data = JObj [(S ''choices'', JArr [])]"

definition no_choices :: response where
  \<open>no_choices = \<lparr>status_code = 200, headers = Map.empty, body_text = S ''{"choices":[]}'',
      body_json = Some no_choices_data\<rparr>\<close>

definition think_data :: json where
  "think_data =
     JObj [(S ''choices'',
            JArr [JObj [(S ''message'',
                        JObj [(S ''content'', JStr (S ''<think>a</think>b''))])]]),
           (S ''citations'', JArr [JStr (S ''https://a'')])]"

definition think_body :: response where
  \<open>think_body = \<lparr>status_code = 200, headers = Map.empty,
      body_text =
        S ''{"choices":[{"message":{"content":"<think>a</think>b"}}],"citations":["https://a"]}'',
      body_json = Some think_data\<rparr>\<close>

definition one_result_dict :: "(pystr \<times> json) list" where
  "one_result_dict = [(S ''title'', JStr (S ''T'')), (S ''url'', JStr (S ''https://u''))]"

definition one_result_data :: json where
  "one_result_data = JObj [(S ''results'', JArr [JObj one_result_dict])]"

definition one_result :: response where
  \<open>one_result = \<lparr>status_code = 200, headers = Map.empty,
      body_text = S ''{"results":[{"title":"T","url":"https://u"}]}'',
      body_json = Some one_result_data\<rparr>\<close>

definition no_results :: response where
  \<open>no_results = \<lparr>status_code = 200, headers = Map.empty,
      body_text = S ''{"results":[]}'',
      body_json = Some (JObj [(S ''results'', JArr [])])\<rparr>\<close>

text \<open>
  Replies with status 200 that the program cannot put out: a content that ends in the lone
  surrogate U+D800 (the JSON text writes it \<open>\ud800\<close>; 92 is the backslash), a usage count
  of \<open>2^64\<close>, and a search result whose title is that surrogate.
\<close>

definition surrogate_data :: json where
  "surrogate_data =
     JObj [(S ''choices'',
            JArr [JObj [(S ''message'', JObj [(S ''content'', JStr (S ''x'' @ [55296]))])]]),
           (S ''citations'', JArr [JStr (S ''https://a'')])]"

definition surrogate_body :: response where
  \<open>surrogate_body = \<lparr>status_code = 200, headers = Map.empty,
      body_text =
        S ''{"choices":[{"message":{"content":"x'' @ [92] @ S ''ud800"}}],"citations":["https://a"]}'',
      body_json = Some surrogate_data\<rparr>\<close>

definition big_usage_data :: json where
  "big_usage_data =
     JObj [(S ''choices'',
            JArr [JObj [(S ''message'', JObj [(S ''content'', JStr (S ''x''))])]]),
           (S ''citations'', JArr [JStr (S ''https://a'')]),
           (S ''usage'', JObj [(S ''total_tokens'', JInt 18446744073709551616)])]"

definition big_usage_body :: response where
  \<open>big_usage_body = \<lparr>status_code = 200, headers = Map.empty,
      body_text =
        S ''{"choices":[{"message":{"content":"x"}}],"citations":["https://a"],"usage":{"total_tokens":18446744073709551616}}'',
      body_json = Some big_usage_data\<rparr>\<close>

definition surrogate_result_dict :: "(pystr \<times> json) list" where
  "surrogate_result_dict = [(S ''title'', JStr [55296]), (S ''url'', JStr (S ''https://u''))]"

definition surrogate_result_data :: json where
  "surrogate_result_data = JObj [(S ''results'', JArr [JObj surrogate_result_dict])]"

definition surrogate_result :: response where
  \<open>surrogate_result = \<lparr>status_code = 200, headers = Map.empty,
      body_text = S ''{"results":[{"title":"'' @ [92] @ S ''ud800","url":"https://u"}]}'',
      body_json = Some surrogate_result_data\<rparr>\<close>

text \<open>A search result whose snippet holds a thinking block.\<close>

definition think_result_dict :: "(pystr \<times> json) list" where
  "think_result_dict =
     [(S ''title'', JStr (S ''T'')), (S ''url'', JStr (S ''https://u'')),
      (S ''snippet'', JStr (S ''<think>a</think>b''))]"

definition think_result_data :: json where
  "think_result_data = JObj [(S ''results'', JArr [JObj think_result_dict])]"

definition think_result :: response where
  \<open>think_result = \<lparr>status_code = 200, headers = Map.empty,
      body_text =
        S ''{"results":[{"title":"T","url":"https://u","snippet":"<think>a</think>b"}]}'',
      body_json = Some think_result_data\<rparr>\<close>

section \<open>Source literals\<close>

lemma S_eq_iff: "S a = S b \<longleftrightarrow> a = b"
  by (simp add: S_def inj_map_eq_map inj_of_char)

lemma S_Nil_iff: "S a = [] \<longleftrightarrow> a = []"
  by (simp add: S_def)

lemma S_valid_utf8: "valid_utf8 (S a)"
proof -
  have "(of_char c :: nat) < 256" for c :: char
  proof -
    have "(of_char c :: nat) mod 256 < 256" by simp
    then show ?thesis by (simp only: of_char_mod_256)
  qed
  then have "\<not> is_surrogate (of_char c)" for c :: char
    using less_le_trans [of "of_char c :: nat" 256 55296] by (auto simp: is_surrogate_def)
  then show ?thesis
    by (simp add: valid_utf8_def S_def list_all_iff)
qed

section \<open>Provider routing\<close>

text \<open>
  C1. Whatever the credentials are, routing \<open>search\<close> with the alternative provider
  (openrouter) explicitly requested is a structured error of code 2 that is not retryable;
  with any other request \<open>search\<close> is routed to the primary provider (perplexity), and it is
  never routed to the alternative provider. The \<open>search\<close> command itself asks for the key
  of perplexity, whatever other key is configured.
\<close>

theorem search_is_primary_only:
  "fails_with (resolve_provider st (Some Openrouter) (S ''search'')) 2 False
   \<and> (prov \<noteq> Some Openrouter \<longrightarrow> resolve_provider st prov (S ''search'') = Inr Perplexity)
   \<and> resolve_provider st prov (S ''search'') \<noteq> Inr Openrouter
   \<and> (perplexity_api_key st = [] \<longrightarrow>
        fails_with (search py_str rt post st query max_results max_tokens_per_page country fmt)
          4 False)"
  by (simp add: resolve_provider_def emit_error_def fails_with_def search_def require_auth_def
        api_key_def bind_def Let_def)

theorem search_is_primary_only_witness:
  "fails_with (resolve_provider only_openrouter (Some Openrouter) (S ''search'')) 2 False
   \<and> None \<noteq> Some Openrouter
   \<and> resolve_provider only_openrouter None (S ''search'') = Inr Perplexity
   \<and> resolve_provider only_openrouter None (S ''search'') \<noteq> Inr Openrouter
   \<and> perplexity_api_key only_openrouter = []
   \<and> fails_with (search py_str_stub default_runtime (answer TimeoutException) only_openrouter (S ''q'') 10 1024
                   None Json) 4 False"
  using search_is_primary_only [of only_openrouter None py_str_stub default_runtime "answer TimeoutException"
      "S ''q''" 10 1024 None Json]
  by (simp add: only_openrouter_def)

text \<open>
  C3. For \<open>ask\<close>, \<open>research\<close> and \<open>reason\<close> with no explicit provider, routing returns
  perplexity when its key is present, else openrouter when its key is present, else
  perplexity; an explicit provider is returned unchanged.
\<close>

theorem auto_detect_routing:
  assumes "command \<in> {S ''ask'', S ''research'', S ''reason''}"
  shows "resolve_provider st None command =
           Inr (if perplexity_api_key st \<noteq> [] then Perplexity
                else if openrouter_api_key st \<noteq> [] then Openrouter
                else Perplexity)
         \<and> resolve_provider st (Some p) command = Inr p"
  using assms by (auto simp: resolve_provider_def S_eq_iff)

theorem auto_detect_routing_witness:
  "S ''research'' \<in> {S ''ask'', S ''research'', S ''reason''}
   \<and> resolve_provider only_openrouter None (S ''research'') = Inr Openrouter
   \<and> resolve_provider only_openrouter (Some Perplexity) (S ''research'') = Inr Perplexity"
  using auto_detect_routing [of "S ''research''" only_openrouter Perplexity]
  by (simp add: only_openrouter_def S_eq_iff S_Nil_iff)

section \<open>Credential resolution\<close>

text \<open>
  C9. For each provider, the resolved credential is the explicit configuration value when
  that is not empty; otherwise it is what the keyring returns for the requesteds field, and
  a keyring lookup that raises (or returns nothing) leaves the credential empty, that is
  absent: no error comes out of the resolution.
\<close>

theorem credential_resolution:
  "api_key (keyring_fallback keyring st) p =
     (if api_key st p \<noteq> [] then api_key st p
      else case keyring (secret_field p) of
             KeyringReturns (Some v) \<Rightarrow> v
           | KeyringReturns None \<Rightarrow> []
           | KeyringRaises \<Rightarrow> [])"
  by (cases p)
     (auto simp: keyring_fallback_def fallback_field_def api_key_def secret_field_def Let_def
           split: keyring_result.splits option.splits)

theorem credential_resolution_witness:
  "api_key (keyring_fallback failing_keyring no_keys) Perplexity = []
   \<and> api_key (keyring_fallback failing_keyring no_keys) Openrouter = S ''stored''
   \<and> api_key (keyring_fallback failing_keyring only_openrouter) Openrouter = S ''or-key''"
  using credential_resolution [of failing_keyring no_keys Perplexity]
    credential_resolution [of failing_keyring no_keys Openrouter]
    credential_resolution [of failing_keyring only_openrouter Openrouter]
  by (simp add: failing_keyring_def no_keys_def only_openrouter_def api_key_def
        secret_field_def S_eq_iff S_Nil_iff)

section \<open>Classification of request outcomes\<close>



section \<open>Removal of thinking blocks\<close>

subsection \<open>Occurrences of a tag\<close>

lemma find_after_length: "find_after pat s = Some r \<Longrightarrow> length r \<le> length s"
  by (induction s arbitrary: r) (auto split: if_splits)

lemma find_after_SomeD: "find_after pat s = Some r \<Longrightarrow> \<exists>pre. s = pre @ pat @ r"
proof (induction s arbitrary: r)
  case Nil
  then show ?case by (auto split: if_splits)
next
  case (Cons c cs)
  show ?case
  proof (cases "prefix pat (c # cs)")
    case True
    with Cons.prems have "r = drop (length pat) (c # cs)" by simp
    moreover from True obtain t where "c # cs = pat @ t" by (auto simp: prefix_def)
    ultimately have "c # cs = [] @ pat @ r" by simp
    then show ?thesis by blast
  next
    case False
    with Cons.prems have "find_after pat cs = Some r" by simp
    then obtain pre where "cs = pre @ pat @ r" using Cons.IH by blast
    then have "c # cs = (c # pre) @ pat @ r" by simp
    then show ?thesis by blast
  qed
qed

lemma find_after_here: "find_after pat (pat @ t) = Some t"
proof (cases "pat @ t")
  case Nil
  then show ?thesis by simp
next
  case (Cons a l)
  have "prefix pat (a # l)" unfolding Cons [symmetric] by simp
  moreover have "drop (length pat) (a # l) = t" unfolding Cons [symmetric] by simp
  ultimately show ?thesis by (simp add: Cons)
qed

lemma find_after_suffix:
  "find_after pat (pre @ pat @ t) = Some r \<Longrightarrow> suffix t r"
proof (induction pre)
  case Nil
  then show ?case by (simp add: find_after_here)
next
  case (Cons a pre)
  show ?case
  proof (cases "prefix pat (a # pre @ pat @ t)")
    case True
    with Cons.prems have "r = drop (length pat) ((a # pre @ pat) @ t)" by simp
    also have "\<dots> = drop (length pat) (a # pre @ pat) @ t"
      using drop_append [of "length pat" "a # pre @ pat" t] by simp
    finally show ?thesis by (simp add: suffix_def)
  next
    case False
    with Cons show ?thesis by simp
  qed
qed

lemma find_after_occurs: "find_after pat (pre @ pat @ t) \<noteq> None"
  by (induction pre) (simp_all add: find_after_here)

lemma has_open_tag_iff: "has_open_tag s \<longleftrightarrow> (\<exists>pre post. s = pre @ open_tag @ post)"
  unfolding has_open_tag_def using find_after_SomeD find_after_occurs by (metis not_Some_eq)

lemma has_think_block_iff:
  "has_think_block s \<longleftrightarrow> (\<exists>pre mid post. s = pre @ open_tag @ mid @ close_tag @ post)"
proof
  assume "has_think_block s"
  then obtain rest post where a: "find_after open_tag s = Some rest"
    and b: "find_after close_tag rest = Some post"
    by (auto simp: has_think_block_def split: option.splits)
  from find_after_SomeD [OF a] obtain pre where "s = pre @ open_tag @ rest" by blast
  moreover from find_after_SomeD [OF b] obtain mid where "rest = mid @ close_tag @ post" by blast
  ultimately show "\<exists>pre mid post. s = pre @ open_tag @ mid @ close_tag @ post" by blast
next
  assume "\<exists>pre mid post. s = pre @ open_tag @ mid @ close_tag @ post"
  then obtain pre mid post where s: "s = pre @ open_tag @ (mid @ close_tag @ post)" by auto
  then obtain rest where a: "find_after open_tag s = Some rest"
    using find_after_occurs [of open_tag pre "mid @ close_tag @ post"] by auto
  with s have "suffix (mid @ close_tag @ post) rest" using find_after_suffix by metis
  then obtain u where "rest = (u @ mid) @ close_tag @ post" by (auto simp: suffix_def)
  then have "find_after close_tag rest \<noteq> None" using find_after_occurs by metis
  with a show "has_think_block s" by (simp add: has_think_block_def)
qed

lemma has_think_block_Cons: "has_think_block cs \<Longrightarrow> has_think_block (c # cs)"
proof -
  assume "has_think_block cs"
  then obtain pre mid post where "cs = pre @ open_tag @ mid @ close_tag @ post"
    unfolding has_think_block_iff by blast
  then have "c # cs = (c # pre) @ open_tag @ mid @ close_tag @ post" by simp
  then show ?thesis unfolding has_think_block_iff by blast
qed

lemma has_think_block_prefix:
  "prefix open_tag (c # cs) \<Longrightarrow>
     has_think_block (c # cs) \<longleftrightarrow> find_after close_tag (drop (length open_tag) (c # cs)) \<noteq> None"
  by (simp add: has_think_block_def)

lemma has_think_block_no_prefix:
  "\<not> prefix open_tag (c # cs) \<Longrightarrow> has_think_block (c # cs) \<longleftrightarrow> has_think_block cs"
  by (simp add: has_think_block_def)

subsection \<open>The substitution\<close>

lemma length_re_sub_think: "length (re_sub_think s) \<le> length s"
proof (induction s rule: re_sub_think.induct)
  case 1
  show ?case by simp
next
  case (2 c cs)
  show ?case
  proof (cases "prefix open_tag (c # cs)")
    case False
    with 2 show ?thesis by simp
  next
    case True
    show ?thesis
    proof (cases "find_after close_tag (drop (length open_tag) (c # cs))")
      case None
      with True 2 show ?thesis by simp
    next
      case (Some rest)
      from find_after_length [OF Some] have "length rest \<le> length (c # cs)" by simp
      moreover from "2.IH"(2) [OF True Some] have "length (re_sub_think rest) \<le> length rest" .
      ultimately show ?thesis using True Some by simp
    qed
  qed
qed

lemma re_sub_think_unchanged: "\<not> has_think_block s \<Longrightarrow> re_sub_think s = s"
proof (induction s rule: re_sub_think.induct)
  case 1
  show ?case by simp
next
  case (2 c cs)
  from "2.prems" have nb: "\<not> has_think_block cs" using has_think_block_Cons by blast
  show ?case
  proof (cases "prefix open_tag (c # cs)")
    case False
    with "2.IH"(3) nb show ?thesis by simp
  next
    case True
    with "2.prems" have "find_after close_tag (drop (length open_tag) (c # cs)) = None"
      by (simp add: has_think_block_prefix)
    with True "2.IH"(1) nb show ?thesis by simp
  qed
qed

lemma re_sub_think_shorter: "has_think_block s \<Longrightarrow> length (re_sub_think s) < length s"
proof (induction s rule: re_sub_think.induct)
  case 1
  then show ?case by (simp add: has_think_block_def open_tag_def S_def)
next
  case (2 c cs)
  show ?case
  proof (cases "prefix open_tag (c # cs)")
    case False
    with "2.prems" have "has_think_block cs" by (simp add: has_think_block_no_prefix)
    with "2.IH"(3) False show ?thesis by simp
  next
    case True
    with "2.prems" obtain rest where
      r: "find_after close_tag (drop (length open_tag) (c # cs)) = Some rest"
      by (auto simp: has_think_block_prefix)
    have "length open_tag = 7" by (simp add: open_tag_def S_def)
    with find_after_length [OF r] have "length rest < length (c # cs)" by simp
    with length_re_sub_think [of rest] True r show ?thesis by simp
  qed
qed

subsection \<open>Trimming\<close>

lemma dropWhile_py_strip: "dropWhile P (rev (dropWhile P (rev (dropWhile P s)))) = rev (dropWhile P (rev (dropWhile P s)))"
proof (cases "rev (dropWhile P (rev (dropWhile P s)))")
  case Nil
  show ?thesis unfolding Nil by simp
next
  case (Cons a t)
  let ?u = "dropWhile P s"
  have "?u = rev (dropWhile P (rev ?u)) @ rev (takeWhile P (rev ?u))"
    by (metis rev_append rev_rev_ident takeWhile_dropWhile_id)
  with Cons have "hd ?u = a" "?u \<noteq> []" by (metis append_Cons list.sel(1), metis Nil_is_append_conv list.distinct(1))
  then have "\<not> P a" using hd_dropWhile by metis
  with Cons show ?thesis by simp
qed

lemma py_strip_idem: "py_strip (py_strip s) = py_strip s"
  by (simp add: py_strip_def dropWhile_py_strip dropWhile_idem)

lemma length_py_strip: "length (py_strip s) \<le> length s"
  unfolding py_strip_def
  by (metis length_dropWhile_le length_rev order_trans)

lemma py_strip_inside: "\<exists>a b. s = a @ py_strip s @ b"
proof -
  let ?u = "dropWhile py_isspace s"
  have "?u = py_strip s @ rev (takeWhile py_isspace (rev ?u))"
    unfolding py_strip_def by (metis rev_append rev_rev_ident takeWhile_dropWhile_id)
  moreover have "s = takeWhile py_isspace s @ ?u" by simp
  ultimately show ?thesis by metis
qed

lemma has_open_tag_py_strip: "has_open_tag (py_strip s) \<Longrightarrow> has_open_tag s"
proof -
  assume "has_open_tag (py_strip s)"
  then obtain pre post where p: "py_strip s = pre @ open_tag @ post"
    unfolding has_open_tag_iff by blast
  obtain a b where "s = a @ py_strip s @ b" using py_strip_inside by blast
  with p have "s = (a @ pre) @ open_tag @ (post @ b)" by simp
  then show ?thesis unfolding has_open_tag_iff by blast
qed

lemma no_tag_no_block: "\<not> has_open_tag s \<Longrightarrow> \<not> has_think_block s"
  by (simp add: has_open_tag_def has_think_block_def)

subsection \<open>Applying the function twice\<close>

text \<open>
  C5, as the claim states it, fails. Removing a block can join the text before it and the
  text behind it into a new block, which only a second application removes; and a text
  without any tag still loses the whitespace at its two ends.
\<close>

theorem strip_thinking_not_idempotent:
  "strip_thinking (S ''<think<think>x</think>>y</think>'') = S ''<think>y</think>''
   \<and> strip_thinking (strip_thinking (S ''<think<think>x</think>>y</think>'')) = []
   \<and> \<not> has_open_tag (S '' a '')
   \<and> strip_thinking (S '' a '') \<noteq> S '' a ''"
  by (simp add: strip_thinking_def py_strip_def py_isspace_def has_open_tag_def S_def
        open_tag_def close_tag_def)

text \<open>
  C5, amended. A text without an opening tag is returned with the whitespace at its two
  ends trimmed and nothing else changed, and applying the function to it twice gives the
  same as applying it once. For every text, the second application changes nothing exactly
  when the result of the first contains no block.
\<close>

theorem strip_thinking_twice:
  "(\<not> has_open_tag t \<longrightarrow> strip_thinking t = py_strip t)
   \<and> (\<not> has_open_tag t \<longrightarrow> strip_thinking (strip_thinking t) = strip_thinking t)
   \<and> (strip_thinking (strip_thinking t) = strip_thinking t
        \<longleftrightarrow> \<not> has_think_block (strip_thinking t))"
proof (intro conjI impI)
  assume n: "\<not> has_open_tag t"
  then show a: "strip_thinking t = py_strip t"
    by (simp add: strip_thinking_def re_sub_think_unchanged no_tag_no_block)
  from n have "\<not> has_open_tag (py_strip t)" using has_open_tag_py_strip by blast
  then have "re_sub_think (py_strip t) = py_strip t"
    by (simp add: re_sub_think_unchanged no_tag_no_block)
  with a show "strip_thinking (strip_thinking t) = strip_thinking t"
    by (simp add: strip_thinking_def py_strip_idem)
next
  let ?r = "strip_thinking t"
  show "strip_thinking ?r = ?r \<longleftrightarrow> \<not> has_think_block ?r"
  proof
    assume eq: "strip_thinking ?r = ?r"
    show "\<not> has_think_block ?r"
    proof
      assume "has_think_block ?r"
      then have "length (re_sub_think ?r) < length ?r" by (rule re_sub_think_shorter)
      moreover have "length (strip_thinking ?r) \<le> length (re_sub_think ?r)"
        by (simp add: strip_thinking_def length_py_strip)
      ultimately show False using eq by simp
    qed
  next
    assume "\<not> has_think_block ?r"
    then have "re_sub_think ?r = ?r" by (rule re_sub_think_unchanged)
    then have "strip_thinking ?r = py_strip ?r" by (simp add: strip_thinking_def)
    also have "\<dots> = ?r" by (simp add: strip_thinking_def py_strip_idem)
    finally show "strip_thinking ?r = ?r" .
  qed
qed

theorem strip_thinking_twice_witness:
  "\<not> has_open_tag (S '' plain answer '')
   \<and> strip_thinking (S '' plain answer '') = S ''plain answer''
   \<and> strip_thinking (strip_thinking (S '' plain answer '')) = S ''plain answer''
   \<and> \<not> has_think_block (strip_thinking (S '' plain answer ''))
   \<and> has_think_block (strip_thinking (S ''<think<think>x</think>>y</think>''))
   \<and> strip_thinking (strip_thinking (S ''<think<think>x</think>>y</think>''))
       \<noteq> strip_thinking (S ''<think<think>x</think>>y</think>'')"
proof -
  have n: "\<not> has_open_tag (S '' plain answer '')"
    by (simp add: has_open_tag_def S_def open_tag_def)
  have p: "py_strip (S '' plain answer '') = S ''plain answer''"
    by (simp add: py_strip_def py_isspace_def S_def)
  from strip_thinking_twice [of "S '' plain answer ''"] n
  have "strip_thinking (S '' plain answer '') = py_strip (S '' plain answer '')"
    and "strip_thinking (strip_thinking (S '' plain answer ''))
          = strip_thinking (S '' plain answer '')"
    and "\<not> has_think_block (strip_thinking (S '' plain answer ''))"
    by blast+
  moreover
  have "has_think_block (strip_thinking (S ''<think<think>x</think>>y</think>''))"
    by (simp add: has_think_block_def strip_thinking_def py_strip_def py_isspace_def S_def
          open_tag_def close_tag_def)
  with strip_thinking_twice [of "S ''<think<think>x</think>>y</think>''"]
  have "has_think_block (strip_thinking (S ''<think<think>x</think>>y</think>''))"
    and "strip_thinking (strip_thinking (S ''<think<think>x</think>>y</think>''))
       \<noteq> strip_thinking (S ''<think<think>x</think>>y</think>'')"
    by blast+
  ultimately show ?thesis using n p by simp
qed

section \<open>The chat commands\<close>

subsection \<open>Steps of a command\<close>

lemma bind_Inr: "bind (Inr x) f = f x"
  by (simp add: bind_def)

lemma bind_Inl: "bind (Inl e) f = Inl e"
  by (simp add: bind_def)

lemma enumerate_strs:
  "map (\<lambda>(i, url). S ''['' @ str_nat (i + 1) @ S ''] '' @ fmt_value py_str url)
       (enumerate 0 (map JStr urls))
   = map (\<lambda>k. citation_line (k + 1) (urls ! k)) [0..<length urls]"
  by (rule nth_equalityI) (simp_all add: nth_enumerate_eq citation_line_def fmt_value_def)

lemma format_citations_strs:
  "format_citations py_str (JArr (map JStr urls)) = Inr (citation_block urls)"
proof -
  have "py_iter (JArr (map JStr urls)) = Inr (map JStr urls)" by simp
  then show ?thesis
    using enumerate_strs [of py_str urls]
    by (simp add: format_citations_def citation_block_def bind_Inr)
qed

lemma require_auth_ok: "api_key st p \<noteq> [] \<Longrightarrow> require_auth st p = Inr ()"
  by (simp add: require_auth_def)

lemma py_get_dict:
  "py_get data k dflt = Inr v \<Longrightarrow> \<exists>kvs. data = JObj kvs \<and> v = field_or kvs k dflt"
  by (cases data) (auto simp: field_or_def)

lemma chat_content_failure:
  "chat_content data = Inl e \<Longrightarrow>
     e \<in> {Uncaught KeyError, Uncaught IndexError, Uncaught TypeError}"
proof -
  assume a: "chat_content data = Inl e"
  have k: "x = Uncaught KeyError \<or> x = Uncaught TypeError"
    if "py_getitem_key v key = Inl x" for v key x
    using that by (cases v) (auto split: option.splits)
  have z: "x = Uncaught KeyError \<or> x = Uncaught IndexError \<or> x = Uncaught TypeError"
    if "py_getitem_0 v = Inl x" for v x
    using that by (cases v rule: py_getitem_0.cases) auto
  from a show ?thesis
    unfolding chat_content_def bind_def
    by (auto split: sum.splits dest: k z)
qed

lemma chat_output_text:
  "chat_output py_str rt Text response_text data model prov cits =
     (if stdout_encodes rt response_text then Inr [StdoutEcho response_text]
      else Inl (Uncaught UnicodeEncodeError))"
  by (simp add: chat_output_def echo_def)

lemma chat_output_json:
  "chat_output py_str rt Json response_text (JObj kvs) model prov cits =
     (let envelope = chat_envelope response_text (field_or kvs (S ''model'') (JStr model)) prov
                       cits (field_or kvs (S ''usage'') JNull)
      in if orjson_dumps_ok rt envelope then Inr [StdoutJson envelope]
         else Inl (Uncaught JSONEncodeError))"
  by (simp add: chat_output_def chat_envelope_def emit_def write_json_def bind_Inr field_or_def
        Let_def)

subsection \<open>A command whose request succeeds\<close>

lemma ask_success:
  assumes "chat_succeeds st post (S ''ask'') requested system query prov model data"
    and "chat_content data = Inr content"
    and "py_get data (S ''citations'') (JArr []) = Inr cits"
    and "format_citations py_str cits = Inr block"
  shows "ask py_str rt post st query system requested fmt =
           bind (py_add content block) (\<lambda>response_text.
             chat_output py_str rt fmt response_text data model prov cits)"
  using assms by (simp add: ask_def chat_succeeds_def bind_Inr require_auth_ok)

lemma research_success:
  assumes "chat_succeeds st post (S ''research'') requested system query prov model data"
    and "chat_content data = Inr (JStr c)"
    and "py_get data (S ''citations'') (JArr []) = Inr cits"
    and "format_citations py_str cits = Inr block"
  shows "research py_str rt post st query system strip requested fmt =
           chat_output py_str rt fmt ((if strip then strip_thinking c else c) @ block)
             data model prov cits"
  using assms by (simp add: research_def chat_succeeds_def bind_Inr require_auth_ok)

lemma reason_success:
  assumes "chat_succeeds st post (S ''reason'') requested system query prov model data"
    and "chat_content data = Inr (JStr c)"
    and "py_get data (S ''citations'') (JArr []) = Inr cits"
    and "format_citations py_str cits = Inr block"
  shows "reason py_str rt post st query system strip requested fmt =
           chat_output py_str rt fmt ((if strip then strip_thinking c else c) @ block)
             data model prov cits"
  using assms by (simp add: reason_def chat_succeeds_def bind_Inr require_auth_ok)

lemma search_success:
  assumes "api_key st Perplexity \<noteq> []"
    and "search_request post st query max_results max_tokens_per_page country
           (perplexity_timeout_ms st) = Inr data"
    and "py_get data (S ''results'') (JArr []) = Inr results"
  shows "search py_str rt post st query max_results max_tokens_per_page country fmt =
     (if fmt = Text then
       (if \<not> py_truthy results then echo rt (S ''No results found.'')
        else
          bind (py_len results) (\<lambda>n.
          bind (py_iter results) (\<lambda>entries.
          bind (search_lines py_str
                  [S ''Found '' @ str_nat n @ S '' search results:\<newline>'']
                  (enumerate 1 entries)) (\<lambda>lines.
          echo rt (py_join (S ''\<newline>'') lines)))))
     else
       bind (py_len results) (\<lambda>n.
       emit py_str rt
         (JObj [(S ''status'', JStr (S ''success'')),
                (S ''data'', results),
                (S ''metadata'', JObj [(S ''count'', JInt (int n)),
                                       (S ''query'', JStr query)])])
         fmt))"
  using assms by (simp add: search_def bind_Inr require_auth_ok)

lemma search_lines_dicts:
  "search_lines py_str lines (enumerate n (map JObj dicts)) =
     Inr (lines @ concat (map (\<lambda>(i, kvs). entry_block py_str i kvs) (enumerate n dicts)))"
  by (induction dicts arbitrary: lines n) (simp_all add: bind_Inr entry_block_def field_or_def)

subsection \<open>The example replies\<close>

lemmas eval_example =
  resolve_provider_def require_auth_def api_key_def lookup_model_def MODELS_def
  chat_request_def chat_outcome_def search_request_def search_outcome_def
  chat_content_def chat_output_def emit_def echo_def write_json_def orjson_dumps_ok_def
  valid_utf8_def is_surrogate_def default_runtime_def format_citations_def fmt_value_def
  strip_thinking_def py_strip_def py_isspace_def open_tag_def close_tag_def
  bind_def emit_error_def fails_with_def chat_succeeds_def
  reply_def answer_def both_keys_def S_def enumerate_eq_zip str_nat.simps

lemma think_content: "chat_content think_data = Inr (JStr (S ''<think>a</think>b''))"
  by (simp add: think_data_def eval_example)

lemma think_citations:
  "py_get think_data (S ''citations'') (JArr []) = Inr (JArr (map JStr [S ''https://a'']))"
  by (simp add: think_data_def eval_example)

lemma think_stripped: "strip_thinking (S ''<think>a</think>b'') = S ''b''"
  by (simp add: eval_example)

lemma think_block:
  "citation_block [S ''https://a''] = S ''\<newline>\<newline>Citations:\<newline>[1] https://a''"
  by (simp add: citation_block_def citation_line_def str_nat.simps S_def)

lemma think_succeeds:
  "chat_succeeds both_keys (reply think_body) (S ''ask'') None None (S ''q'')
     Perplexity (S ''sonar-pro'') think_data"
  "chat_succeeds both_keys (reply think_body) (S ''research'') None None (S ''q'')
     Perplexity (S ''sonar-deep-research'') think_data"
  "chat_succeeds both_keys (reply think_body) (S ''reason'') None None (S ''q'')
     Perplexity (S ''sonar-reasoning-pro'') think_data"
  by (simp_all add: think_body_def eval_example)

lemma no_choices_content: "chat_content no_choices_data = Inl (Uncaught IndexError)"
  by (simp add: no_choices_data_def eval_example)

lemma no_choices_succeeds:
  "chat_succeeds both_keys (reply no_choices) (S ''ask'') (Some Openrouter) None (S ''q'')
     Openrouter (S ''perplexity/sonar-pro'') no_choices_data"
  "chat_succeeds both_keys (reply no_choices) (S ''research'') (Some Openrouter) None (S ''q'')
     Openrouter (S ''perplexity/sonar-deep-research'') no_choices_data"
  "chat_succeeds both_keys (reply no_choices) (S ''reason'') (Some Openrouter) None (S ''q'')
     Openrouter (S ''perplexity/sonar-reasoning'') no_choices_data"
  by (simp_all add: no_choices_def eval_example)

lemma both_keys_perplexity: "api_key both_keys Perplexity \<noteq> []"
  by (simp add: eval_example)

lemma one_result_request:
  "search_request (reply one_result) both_keys (S ''q'') 10 1024 None
     (perplexity_timeout_ms both_keys) = Inr one_result_data"
  by (simp add: one_result_def eval_example)

lemma one_result_results:
  "py_get one_result_data (S ''results'') (JArr [])
     = Inr (JArr (map JObj [one_result_dict]))"
  by (simp add: one_result_data_def)

lemma no_results_request:
  "search_request (reply no_results) both_keys (S ''q'') 10 1024 None
     (perplexity_timeout_ms both_keys) = Inr (JObj [(S ''results'', JArr [])])"
  by (simp add: no_results_def eval_example)

lemma think_result_request:
  "search_request (reply think_result) both_keys (S ''q'') 10 1024 None
     (perplexity_timeout_ms both_keys) = Inr think_result_data"
  by (simp add: think_result_def eval_example)

lemma think_result_results:
  "py_get think_result_data (S ''results'') (JArr []) = Inr (JArr (map JObj [think_result_dict]))"
  by (simp add: think_result_data_def)

lemma surrogate_result_request:
  "search_request (reply surrogate_result) both_keys (S ''q'') 10 1024 None
     (perplexity_timeout_ms both_keys) = Inr surrogate_result_data"
  by (simp add: surrogate_result_def eval_example)

lemma surrogate_result_results:
  "py_get surrogate_result_data (S ''results'') (JArr [])
     = Inr (JArr (map JObj [surrogate_result_dict]))"
  by (simp add: surrogate_result_data_def)

lemma surrogate_content: "chat_content surrogate_data = Inr (JStr (S ''x'' @ [55296]))"
  by (simp add: surrogate_data_def eval_example)

lemma surrogate_citations:
  "py_get surrogate_data (S ''citations'') (JArr []) = Inr (JArr (map JStr [S ''https://a'']))"
  by (simp add: surrogate_data_def eval_example)

lemma surrogate_succeeds:
  "chat_succeeds both_keys (reply surrogate_body) (S ''ask'') None None (S ''q'')
     Perplexity (S ''sonar-pro'') surrogate_data"
  by (simp add: surrogate_body_def eval_example)

lemma big_usage_content: "chat_content big_usage_data = Inr (JStr (S ''x''))"
  by (simp add: big_usage_data_def eval_example)

lemma big_usage_citations:
  "py_get big_usage_data (S ''citations'') (JArr []) = Inr (JArr (map JStr [S ''https://a'']))"
  by (simp add: big_usage_data_def eval_example)

lemma big_usage_succeeds:
  "chat_succeeds both_keys (reply big_usage_body) (S ''ask'') None None (S ''q'')
     Perplexity (S ''sonar-pro'') big_usage_data"
  by (simp add: big_usage_body_def eval_example)

lemma surrogate_rejected: "\<not> stdout_encodes default_runtime (s @ [55296] @ t)"
  by (simp add: default_runtime_def valid_utf8_def is_surrogate_def)

subsection \<open>A success body without content\<close>

text \<open>
  C4, as the claim states it, fails: the subscript chain
  \<open>data["choices"][0]["message"]["content"]\<close> is not guarded, so a body without the
  content ends the command with an uncaught exception and not with a structured error.
\<close>

theorem missing_content_crashes:
  "ask py_str_stub default_runtime (reply empty_body) both_keys (S ''q'') None None Json
     = Inl (Uncaught KeyError)
   \<and> \<not> fails_with (ask py_str_stub default_runtime (reply empty_body) both_keys (S ''q'') None None Json)
         9 False"
  by (simp add: ask_def empty_body_def eval_example)

text \<open>
  C4, amended. For every chat success body in which \<open>choices[0].message.content\<close> is
  absent, \<open>ask\<close>, \<open>research\<close> and \<open>reason\<close> end with the uncaught KeyError, IndexError or
  TypeError of the subscript chain.
\<close>

theorem missing_content_is_uncaught:
  assumes "chat_content data = Inl e"
  shows "e \<in> {Uncaught KeyError, Uncaught IndexError, Uncaught TypeError}
    \<and> (chat_succeeds st post (S ''ask'') requested system query prov model data \<longrightarrow>
         ask py_str rt post st query system requested fmt = Inl e)
    \<and> (chat_succeeds st post (S ''research'') requested system query prov model data \<longrightarrow>
         research py_str rt post st query system strip requested fmt = Inl e)
    \<and> (chat_succeeds st post (S ''reason'') requested system query prov model data \<longrightarrow>
         reason py_str rt post st query system strip requested fmt = Inl e)"
  using assms chat_content_failure [OF assms]
  by (simp add: ask_def research_def reason_def chat_succeeds_def bind_Inr bind_Inl
        require_auth_ok)

theorem missing_content_is_uncaught_witness:
  "chat_content no_choices_data = Inl (Uncaught IndexError)
   \<and> chat_succeeds both_keys (reply no_choices) (S ''ask'') (Some Openrouter) None (S ''q'')
        Openrouter (S ''perplexity/sonar-pro'') no_choices_data
   \<and> ask py_str_stub default_runtime (reply no_choices) both_keys (S ''q'') None (Some Openrouter) Json
        = Inl (Uncaught IndexError)
   \<and> chat_succeeds both_keys (reply no_choices) (S ''research'') (Some Openrouter) None (S ''q'')
        Openrouter (S ''perplexity/sonar-deep-research'') no_choices_data
   \<and> research py_str_stub default_runtime (reply no_choices) both_keys (S ''q'') None True (Some Openrouter) Json
        = Inl (Uncaught IndexError)
   \<and> chat_succeeds both_keys (reply no_choices) (S ''reason'') (Some Openrouter) None (S ''q'')
        Openrouter (S ''perplexity/sonar-reasoning'') no_choices_data
   \<and> reason py_str_stub default_runtime (reply no_choices) both_keys (S ''q'') None False (Some Openrouter) Text
        = Inl (Uncaught IndexError)"
proof -
  note t = missing_content_is_uncaught [OF no_choices_content, where st = both_keys
      and post = "reply no_choices" and requested = "Some Openrouter" and system = None
      and query = "S ''q''" and prov = Openrouter and py_str = py_str_stub]
  from t [where model = "S ''perplexity/sonar-pro''" and fmt = Json] no_choices_succeeds(1)
  have "ask py_str_stub default_runtime (reply no_choices) both_keys (S ''q'') None (Some Openrouter) Json
        = Inl (Uncaught IndexError)"
    by blast
  moreover
  from t [where model = "S ''perplexity/sonar-deep-research''" and fmt = Json and strip = True]
    no_choices_succeeds(2)
  have "research py_str_stub default_runtime (reply no_choices) both_keys (S ''q'') None True (Some Openrouter)
          Json = Inl (Uncaught IndexError)"
    by blast
  moreover
  from t [where model = "S ''perplexity/sonar-reasoning''" and fmt = Text and strip = False]
    no_choices_succeeds(3)
  have "reason py_str_stub default_runtime (reply no_choices) both_keys (S ''q'') None False (Some Openrouter)
          Text = Inl (Uncaught IndexError)"
    by blast
  ultimately show ?thesis using no_choices_content no_choices_succeeds by blast
qed

subsection \<open>When thinking blocks are removed\<close>

text \<open>
  C6, as the claim states it, fails for \<open>ask\<close>: that command has no option to request the
  removal and never removes a block, where \<open>research\<close> on the same reply does when asked.
\<close>

theorem ask_never_strips:
  "ask py_str_stub default_runtime (reply think_body) both_keys (S ''q'') None None Text
     = Inr [StdoutEcho (S ''<think>a</think>b\<newline>\<newline>Citations:\<newline>[1] https://a'')]
   \<and> research py_str_stub default_runtime (reply think_body) both_keys (S ''q'') None True None Text
     = Inr [StdoutEcho (S ''b\<newline>\<newline>Citations:\<newline>[1] https://a'')]"
  by (simp add: ask_def research_def think_body_def think_data_def eval_example)

text \<open>
  C6, amended. Thinking blocks are removed only when the caller asks for it, and only
  \<open>research\<close> and \<open>reason\<close> can be asked: the response text that they hand to the output
  step is the stripped content followed by the citation block with the flag, and the
  content as it came without it; for \<open>ask\<close> it is always the content as it came. The output
  step prints that text, or puts it into the envelope, unchanged, unless the write raises.
  \<open>search\<close> puts out the results as they came, in both modes, unless the write raises.
\<close>

theorem stripping_on_request:
  assumes "chat_content data = Inr (JStr c)"
    and "py_get data (S ''citations'') (JArr []) = Inr cits"
    and "format_citations py_str cits = Inr block"
  shows "(chat_succeeds st post (S ''ask'') requested system query prov model data \<longrightarrow>
           ask py_str rt post st query system requested fmt =
             chat_output py_str rt fmt (c @ block) data model prov cits)
    \<and> (chat_succeeds st post (S ''research'') requested system query prov model data \<longrightarrow>
           research py_str rt post st query system strip requested fmt =
             chat_output py_str rt fmt ((if strip then strip_thinking c else c) @ block)
               data model prov cits)
    \<and> (chat_succeeds st post (S ''reason'') requested system query prov model data \<longrightarrow>
           reason py_str rt post st query system strip requested fmt =
             chat_output py_str rt fmt ((if strip then strip_thinking c else c) @ block)
               data model prov cits)
    \<and> chat_output py_str rt Text response_text data model prov cits =
         (if stdout_encodes rt response_text then Inr [StdoutEcho response_text]
          else Inl (Uncaught UnicodeEncodeError))
    \<and> chat_output py_str rt Json response_text data model prov cits =
         (let envelope = chat_envelope response_text
                           (body_field data (S ''model'') (JStr model)) prov cits
                           (body_field data (S ''usage'') JNull)
          in if orjson_dumps_ok rt envelope then Inr [StdoutJson envelope]
             else Inl (Uncaught JSONEncodeError))
    \<and> (api_key st Perplexity \<noteq> []
         \<and> search_request post st query max_results max_tokens_per_page country
              (perplexity_timeout_ms st) = Inr found
         \<and> py_get found (S ''results'') (JArr []) = Inr results \<longrightarrow>
           (py_len results = Inr n \<longrightarrow>
              search py_str rt post st query max_results max_tokens_per_page country Json =
                (let envelope = JObj [(S ''status'', JStr (S ''success'')),
                                      (S ''data'', results),
                                      (S ''metadata'', JObj [(S ''count'', JInt (int n)),
                                                             (S ''query'', JStr query)])]
                 in if orjson_dumps_ok rt envelope then Inr [StdoutJson envelope]
                    else Inl (Uncaught JSONEncodeError)))
         \<and> (\<not> py_truthy results \<longrightarrow>
              search py_str rt post st query max_results max_tokens_per_page country Text =
                (if stdout_encodes rt (S ''No results found.'')
                 then Inr [StdoutEcho (S ''No results found.'')]
                 else Inl (Uncaught UnicodeEncodeError)))
         \<and> (results = JArr (map JObj dicts) \<and> dicts \<noteq> [] \<longrightarrow>
              search py_str rt post st query max_results max_tokens_per_page country Text =
                (let listing =
                       py_join (S ''\<newline>'')
                         ((S ''Found '' @ str_nat (length dicts) @ S '' search results:\<newline>'')
                          # concat (map (\<lambda>(i, kvs). entry_block py_str i kvs)
                                        (enumerate 1 dicts)))
                 in if stdout_encodes rt listing then Inr [StdoutEcho listing]
                    else Inl (Uncaught UnicodeEncodeError))))"
proof -
  from assms(2) obtain kvs where d: "data = JObj kvs" using py_get_dict by blast
  have j: "chat_output py_str rt Json response_text data model prov cits =
         (let envelope = chat_envelope response_text
                           (body_field data (S ''model'') (JStr model)) prov cits
                           (body_field data (S ''usage'') JNull)
          in if orjson_dumps_ok rt envelope then Inr [StdoutJson envelope]
             else Inl (Uncaught JSONEncodeError))"
    unfolding d body_field_def by (simp add: chat_output_json)
  have s: "(py_len results = Inr n \<longrightarrow>
              search py_str rt post st query max_results max_tokens_per_page country Json =
                (let envelope = JObj [(S ''status'', JStr (S ''success'')),
                                      (S ''data'', results),
                                      (S ''metadata'', JObj [(S ''count'', JInt (int n)),
                                                             (S ''query'', JStr query)])]
                 in if orjson_dumps_ok rt envelope then Inr [StdoutJson envelope]
                    else Inl (Uncaught JSONEncodeError)))
         \<and> (\<not> py_truthy results \<longrightarrow>
              search py_str rt post st query max_results max_tokens_per_page country Text =
                (if stdout_encodes rt (S ''No results found.'')
                 then Inr [StdoutEcho (S ''No results found.'')]
                 else Inl (Uncaught UnicodeEncodeError)))
         \<and> (results = JArr (map JObj dicts) \<and> dicts \<noteq> [] \<longrightarrow>
              search py_str rt post st query max_results max_tokens_per_page country Text =
                (let listing =
                       py_join (S ''\<newline>'')
                         ((S ''Found '' @ str_nat (length dicts) @ S '' search results:\<newline>'')
                          # concat (map (\<lambda>(i, kvs). entry_block py_str i kvs)
                                        (enumerate 1 dicts)))
                 in if stdout_encodes rt listing then Inr [StdoutEcho listing]
                    else Inl (Uncaught UnicodeEncodeError)))"
    if "api_key st Perplexity \<noteq> []"
      and "search_request post st query max_results max_tokens_per_page country
              (perplexity_timeout_ms st) = Inr found"
      and "py_get found (S ''results'') (JArr []) = Inr results"
    using search_success [OF that]
    by (simp add: bind_Inr search_lines_dicts emit_def write_json_def echo_def Let_def)
  from assms j s show ?thesis
    by (simp add: ask_success research_success reason_success chat_output_text bind_Inr)
qed

theorem stripping_on_request_witness:
  "chat_content think_data = Inr (JStr (S ''<think>a</think>b''))
   \<and> py_get think_data (S ''citations'') (JArr []) = Inr (JArr (map JStr [S ''https://a'']))
   \<and> format_citations py_str_stub (JArr (map JStr [S ''https://a'']))
        = Inr (S ''\<newline>\<newline>Citations:\<newline>[1] https://a'')
   \<and> chat_succeeds both_keys (reply think_body) (S ''ask'') None None (S ''q'')
        Perplexity (S ''sonar-pro'') think_data
   \<and> ask py_str_stub default_runtime (reply think_body) both_keys (S ''q'') None None Text
        = Inr [StdoutEcho (S ''<think>a</think>b\<newline>\<newline>Citations:\<newline>[1] https://a'')]
   \<and> ask py_str_stub default_runtime (reply think_body) both_keys (S ''q'') None None Json
        = Inr [StdoutJson
                 (chat_envelope (S ''<think>a</think>b\<newline>\<newline>Citations:\<newline>[1] https://a'')
                    (JStr (S ''sonar-pro'')) Perplexity (JArr [JStr (S ''https://a'')]) JNull)]
   \<and> chat_succeeds both_keys (reply think_body) (S ''research'') None None (S ''q'')
        Perplexity (S ''sonar-deep-research'') think_data
   \<and> research py_str_stub default_runtime (reply think_body) both_keys (S ''q'') None False None
        Text
        = Inr [StdoutEcho (S ''<think>a</think>b\<newline>\<newline>Citations:\<newline>[1] https://a'')]
   \<and> chat_succeeds both_keys (reply think_body) (S ''reason'') None None (S ''q'')
        Perplexity (S ''sonar-reasoning-pro'') think_data
   \<and> reason py_str_stub default_runtime (reply think_body) both_keys (S ''q'') None True None Text
        = Inr [StdoutEcho (S ''b\<newline>\<newline>Citations:\<newline>[1] https://a'')]
   \<and> chat_content surrogate_data = Inr (JStr (S ''x'' @ [55296]))
   \<and> chat_succeeds both_keys (reply surrogate_body) (S ''ask'') None None (S ''q'')
        Perplexity (S ''sonar-pro'') surrogate_data
   \<and> ask py_str_stub default_runtime (reply surrogate_body) both_keys (S ''q'') None None Text
        = Inl (Uncaught UnicodeEncodeError)
   \<and> api_key both_keys Perplexity \<noteq> []
   \<and> search_request (reply one_result) both_keys (S ''q'') 10 1024 None
        (perplexity_timeout_ms both_keys) = Inr one_result_data
   \<and> py_len (JArr (map JObj [one_result_dict])) = Inr 1
   \<and> search py_str_stub default_runtime (reply one_result) both_keys (S ''q'') 10 1024 None Json
        = Inr [StdoutJson
                 (JObj [(S ''status'', JStr (S ''success'')),
                        (S ''data'', JArr (map JObj [one_result_dict])),
                        (S ''metadata'', JObj [(S ''count'', JInt 1),
                                               (S ''query'', JStr (S ''q''))])])]
   \<and> search_request (reply no_results) both_keys (S ''q'') 10 1024 None
        (perplexity_timeout_ms both_keys) = Inr (JObj [(S ''results'', JArr [])])
   \<and> \<not> py_truthy (JArr [])
   \<and> search py_str_stub default_runtime (reply no_results) both_keys (S ''q'') 10 1024 None Text
        = Inr [StdoutEcho (S ''No results found.'')]
   \<and> search_request (reply think_result) both_keys (S ''q'') 10 1024 None
        (perplexity_timeout_ms both_keys) = Inr think_result_data
   \<and> [think_result_dict] \<noteq> []
   \<and> search py_str_stub default_runtime (reply think_result) both_keys (S ''q'') 10 1024 None Text
        = Inr [StdoutEcho
                 (S ''Found 1 search results:\<newline>\<newline>1. **T**\<newline>   URL: https://u\<newline>   <think>a</think>b\<newline>'')]"
proof -
  have f: "format_citations py_str_stub (JArr (map JStr [S ''https://a'']))
             = Inr (S ''\<newline>\<newline>Citations:\<newline>[1] https://a'')"
    by (simp add: eval_example)
  have l: "py_len (JArr (map JObj [one_result_dict])) = Inr 1"
    by simp
  have g: "py_get (JObj [(S ''results'', JArr [])]) (S ''results'') (JArr []) = Inr (JArr [])"
    by simp
  have j: "S ''<think>a</think>b'' @ S ''\<newline>\<newline>Citations:\<newline>[1] https://a''
             = S ''<think>a</think>b\<newline>\<newline>Citations:\<newline>[1] https://a''"
    "S ''b'' @ S ''\<newline>\<newline>Citations:\<newline>[1] https://a'' = S ''b\<newline>\<newline>Citations:\<newline>[1] https://a''"
    by (simp_all add: S_def)
  have e: "stdout_encodes default_runtime (S ''<think>a</think>b\<newline>\<newline>Citations:\<newline>[1] https://a'')"
    "stdout_encodes default_runtime (S ''b\<newline>\<newline>Citations:\<newline>[1] https://a'')"
    "stdout_encodes default_runtime (S ''No results found.'')"
    by (simp_all add: default_runtime_def valid_utf8_def is_surrogate_def S_def)
  note t = stripping_on_request [OF think_content think_citations f, where st = both_keys
      and requested = None and system = None and query = "S ''q''" and prov = Perplexity
      and rt = default_runtime and max_results = 10 and max_tokens_per_page = 1024
      and country = None]
  from t [where post = "reply think_body" and model = "S ''sonar-pro''" and fmt = Text
      and response_text = "S ''<think>a</think>b\<newline>\<newline>Citations:\<newline>[1] https://a''"]
    think_succeeds(1) e
  have a: "ask py_str_stub default_runtime (reply think_body) both_keys (S ''q'') None None Text
        = Inr [StdoutEcho (S ''<think>a</think>b\<newline>\<newline>Citations:\<newline>[1] https://a'')]"
    by (simp add: j)
  from t [where post = "reply think_body" and model = "S ''sonar-pro''" and fmt = Json
      and response_text = "S ''<think>a</think>b\<newline>\<newline>Citations:\<newline>[1] https://a''"]
    think_succeeds(1)
  have a': "ask py_str_stub default_runtime (reply think_body) both_keys (S ''q'') None None Json
        = Inr [StdoutJson
                 (chat_envelope (S ''<think>a</think>b\<newline>\<newline>Citations:\<newline>[1] https://a'')
                    (JStr (S ''sonar-pro'')) Perplexity (JArr [JStr (S ''https://a'')]) JNull)]"
    by (simp add: j body_field_def field_or_def think_data_def chat_envelope_def
          orjson_dumps_ok_def provider_value_def default_runtime_def valid_utf8_def
          is_surrogate_def S_def)
  from t [where post = "reply think_body" and model = "S ''sonar-deep-research''"
      and strip = False and fmt = Text
      and response_text = "S ''<think>a</think>b\<newline>\<newline>Citations:\<newline>[1] https://a''"]
    think_succeeds(2) e
  have b: "research py_str_stub default_runtime (reply think_body) both_keys (S ''q'') None False
        None Text
        = Inr [StdoutEcho (S ''<think>a</think>b\<newline>\<newline>Citations:\<newline>[1] https://a'')]"
    by (simp add: j)
  from t [where post = "reply think_body" and model = "S ''sonar-reasoning-pro''"
      and strip = True and fmt = Text
      and response_text = "S ''b\<newline>\<newline>Citations:\<newline>[1] https://a''"]
    think_succeeds(3) think_stripped e
  have c: "reason py_str_stub default_runtime (reply think_body) both_keys (S ''q'') None True None
        Text = Inr [StdoutEcho (S ''b\<newline>\<newline>Citations:\<newline>[1] https://a'')]"
    by (simp add: j)
  from stripping_on_request [OF surrogate_content surrogate_citations f, where st = both_keys
      and requested = None and system = None and query = "S ''q''" and prov = Perplexity
      and rt = default_runtime and post = "reply surrogate_body" and model = "S ''sonar-pro''"
      and fmt = Text
      and response_text = "(S ''x'' @ [55296]) @ S ''\<newline>\<newline>Citations:\<newline>[1] https://a''"]
    surrogate_succeeds surrogate_rejected [of "S ''x''" "S ''\<newline>\<newline>Citations:\<newline>[1] https://a''"]
  have x: "ask py_str_stub default_runtime (reply surrogate_body) both_keys (S ''q'') None None
        Text = Inl (Uncaught UnicodeEncodeError)"
    by simp
  from t [where post = "reply one_result" and found = one_result_data and n = 1
      and results = "JArr (map JObj [one_result_dict])"]
    both_keys_perplexity one_result_request one_result_results l
  have d: "search py_str_stub default_runtime (reply one_result) both_keys (S ''q'') 10 1024 None
        Json
        = Inr [StdoutJson
                 (JObj [(S ''status'', JStr (S ''success'')),
                        (S ''data'', JArr (map JObj [one_result_dict])),
                        (S ''metadata'', JObj [(S ''count'', JInt 1),
                                               (S ''query'', JStr (S ''q''))])])]"
    by (simp add: orjson_dumps_ok_def default_runtime_def valid_utf8_def is_surrogate_def
          one_result_dict_def S_def)
  from t [where post = "reply no_results" and found = "JObj [(S ''results'', JArr [])]"
      and results = "JArr []"]
    both_keys_perplexity no_results_request g e
  have n: "search py_str_stub default_runtime (reply no_results) both_keys (S ''q'') 10 1024 None
        Text = Inr [StdoutEcho (S ''No results found.'')]"
    by simp
  from t [where post = "reply think_result" and found = think_result_data
      and results = "JArr (map JObj [think_result_dict])" and dicts = "[think_result_dict]"]
    both_keys_perplexity think_result_request think_result_results
  have k: "search py_str_stub default_runtime (reply think_result) both_keys (S ''q'') 10 1024
        None Text
        = Inr [StdoutEcho
                 (S ''Found 1 search results:\<newline>\<newline>1. **T**\<newline>   URL: https://u\<newline>   <think>a</think>b\<newline>'')]"
    by (simp add: entry_block_def field_or_def fmt_value_def enumerate_eq_zip str_nat.simps
          think_result_dict_def default_runtime_def valid_utf8_def is_surrogate_def S_def)
  from a a' b c x d n k f l think_content think_citations think_succeeds surrogate_content
    surrogate_succeeds both_keys_perplexity one_result_request no_results_request
    think_result_request
  show ?thesis by simp
qed

subsection \<open>The citation block\<close>

text \<open>
  C7. \<open>format_citations\<close> of the empty sequence is the empty string; of a non-empty
  sequence of URLs it is a blank line, the header \<open>Citations:\<close> and one line
  \<open>[k] url\<close> for the k-th URL, counted from 1, joined by newlines; the documented example
  holds. The text that \<open>ask\<close>, \<open>research\<close> and \<open>reason\<close> hand to \<open>typer.echo\<close> is the
  content, stripped first when stripping was requested, followed by the block once; it is
  what the command prints, unless stdout cannot encode it and the write raises.
\<close>

theorem citation_block_format:
  "format_citations py_str (JArr []) = Inr []
   \<and> (urls \<noteq> [] \<longrightarrow>
        format_citations py_str (JArr (map JStr urls)) =
          Inr (S ''\<newline>\<newline>Citations:\<newline>''
               @ py_join (S ''\<newline>'')
                   (map (\<lambda>k. S ''['' @ str_nat (k + 1) @ S ''] '' @ urls ! k) [0..<length urls])))
   \<and> format_citations py_str (JArr [JStr (S ''https://a''), JStr (S ''https://b'')])
        = Inr (S ''\<newline>\<newline>Citations:\<newline>[1] https://a\<newline>[2] https://b'')
   \<and> (chat_content data = Inr (JStr c)
        \<and> py_get data (S ''citations'') (JArr []) = Inr (JArr (map JStr urls)) \<longrightarrow>
        (chat_succeeds st post (S ''ask'') requested system query prov model data \<longrightarrow>
           ask py_str rt post st query system requested Text =
             (let printed = c @ citation_block urls
              in if stdout_encodes rt printed then Inr [StdoutEcho printed]
                 else Inl (Uncaught UnicodeEncodeError)))
        \<and> (chat_succeeds st post (S ''research'') requested system query prov model data \<longrightarrow>
           research py_str rt post st query system strip requested Text =
             (let printed = (if strip then strip_thinking c else c) @ citation_block urls
              in if stdout_encodes rt printed then Inr [StdoutEcho printed]
                 else Inl (Uncaught UnicodeEncodeError)))
        \<and> (chat_succeeds st post (S ''reason'') requested system query prov model data \<longrightarrow>
           reason py_str rt post st query system strip requested Text =
             (let printed = (if strip then strip_thinking c else c) @ citation_block urls
              in if stdout_encodes rt printed then Inr [StdoutEcho printed]
                 else Inl (Uncaught UnicodeEncodeError))))"
proof (intro conjI impI)
  show "format_citations py_str (JArr []) = Inr []"
    by (simp add: format_citations_def)
  show "format_citations py_str (JArr (map JStr urls)) =
          Inr (S ''\<newline>\<newline>Citations:\<newline>''
               @ py_join (S ''\<newline>'')
                   (map (\<lambda>k. S ''['' @ str_nat (k + 1) @ S ''] '' @ urls ! k) [0..<length urls]))"
    if "urls \<noteq> []"
    using that by (simp add: format_citations_strs citation_block_def citation_line_def)
  show "format_citations py_str (JArr [JStr (S ''https://a''), JStr (S ''https://b'')])
        = Inr (S ''\<newline>\<newline>Citations:\<newline>[1] https://a\<newline>[2] https://b'')"
    by (simp add: eval_example)
next
  assume a: "chat_content data = Inr (JStr c)
        \<and> py_get data (S ''citations'') (JArr []) = Inr (JArr (map JStr urls))"
  note f = format_citations_strs [of py_str urls]
  show "ask py_str rt post st query system requested Text =
             (let printed = c @ citation_block urls
              in if stdout_encodes rt printed then Inr [StdoutEcho printed]
                 else Inl (Uncaught UnicodeEncodeError))"
    if "chat_succeeds st post (S ''ask'') requested system query prov model data"
    using ask_success [OF that _ _ f] a by (simp add: bind_Inr chat_output_text)
  show "research py_str rt post st query system strip requested Text =
             (let printed = (if strip then strip_thinking c else c) @ citation_block urls
              in if stdout_encodes rt printed then Inr [StdoutEcho printed]
                 else Inl (Uncaught UnicodeEncodeError))"
    if "chat_succeeds st post (S ''research'') requested system query prov model data"
    using research_success [OF that _ _ f] a by (simp add: chat_output_text)
  show "reason py_str rt post st query system strip requested Text =
             (let printed = (if strip then strip_thinking c else c) @ citation_block urls
              in if stdout_encodes rt printed then Inr [StdoutEcho printed]
                 else Inl (Uncaught UnicodeEncodeError))"
    if "chat_succeeds st post (S ''reason'') requested system query prov model data"
    using reason_success [OF that _ _ f] a by (simp add: chat_output_text)
qed

theorem citation_block_format_witness:
  "[S ''https://a''] \<noteq> []
   \<and> format_citations py_str_stub (JArr (map JStr [S ''https://a'']))
        = Inr (S ''\<newline>\<newline>Citations:\<newline>[1] https://a'')
   \<and> chat_content think_data = Inr (JStr (S ''<think>a</think>b''))
   \<and> py_get think_data (S ''citations'') (JArr []) = Inr (JArr (map JStr [S ''https://a'']))
   \<and> chat_succeeds both_keys (reply think_body) (S ''ask'') None None (S ''q'')
        Perplexity (S ''sonar-pro'') think_data
   \<and> ask py_str_stub default_runtime (reply think_body) both_keys (S ''q'') None None Text
        = Inr [StdoutEcho (S ''<think>a</think>b\<newline>\<newline>Citations:\<newline>[1] https://a'')]
   \<and> chat_succeeds both_keys (reply think_body) (S ''research'') None None (S ''q'')
        Perplexity (S ''sonar-deep-research'') think_data
   \<and> research py_str_stub default_runtime (reply think_body) both_keys (S ''q'') None True None
        Text
        = Inr [StdoutEcho (S ''b\<newline>\<newline>Citations:\<newline>[1] https://a'')]
   \<and> chat_succeeds both_keys (reply think_body) (S ''reason'') None None (S ''q'')
        Perplexity (S ''sonar-reasoning-pro'') think_data
   \<and> reason py_str_stub default_runtime (reply think_body) both_keys (S ''q'') None False None
        Text
        = Inr [StdoutEcho (S ''<think>a</think>b\<newline>\<newline>Citations:\<newline>[1] https://a'')]
   \<and> chat_content surrogate_data = Inr (JStr (S ''x'' @ [55296]))
   \<and> py_get surrogate_data (S ''citations'') (JArr []) = Inr (JArr (map JStr [S ''https://a'']))
   \<and> chat_succeeds both_keys (reply surrogate_body) (S ''ask'') None None (S ''q'')
        Perplexity (S ''sonar-pro'') surrogate_data
   \<and> ask py_str_stub default_runtime (reply surrogate_body) both_keys (S ''q'') None None Text
        = Inl (Uncaught UnicodeEncodeError)"
proof -
  have j: "S ''<think>a</think>b'' @ S ''\<newline>\<newline>Citations:\<newline>[1] https://a''
             = S ''<think>a</think>b\<newline>\<newline>Citations:\<newline>[1] https://a''"
    "S ''b'' @ S ''\<newline>\<newline>Citations:\<newline>[1] https://a'' = S ''b\<newline>\<newline>Citations:\<newline>[1] https://a''"
    by (simp_all add: S_def)
  have e: "stdout_encodes default_runtime (S ''<think>a</think>b\<newline>\<newline>Citations:\<newline>[1] https://a'')"
    "stdout_encodes default_runtime (S ''b\<newline>\<newline>Citations:\<newline>[1] https://a'')"
    by (simp_all add: default_runtime_def valid_utf8_def is_surrogate_def S_def)
  note t = citation_block_format [where urls = "[S ''https://a'']" and py_str = py_str_stub
      and data = think_data and c = "S ''<think>a</think>b''" and st = both_keys
      and post = "reply think_body" and requested = None and system = None
      and query = "S ''q''" and prov = Perplexity and rt = default_runtime]
  from t [where model = "S ''sonar-pro''"]
  have f: "format_citations py_str_stub (JArr (map JStr [S ''https://a'']))
          = Inr (S ''\<newline>\<newline>Citations:\<newline>[1] https://a'')"
    by (simp add: str_nat.simps S_def)
  from t [where model = "S ''sonar-pro''"] think_content think_citations think_succeeds(1) e
  have a: "ask py_str_stub default_runtime (reply think_body) both_keys (S ''q'') None None Text
        = Inr [StdoutEcho (S ''<think>a</think>b\<newline>\<newline>Citations:\<newline>[1] https://a'')]"
    by (simp add: think_block j)
  from t [where model = "S ''sonar-deep-research''" and strip = True]
    think_content think_citations think_succeeds(2) e
  have b: "research py_str_stub default_runtime (reply think_body) both_keys (S ''q'') None True
        None Text = Inr [StdoutEcho (S ''b\<newline>\<newline>Citations:\<newline>[1] https://a'')]"
    by (simp add: think_block think_stripped j)
  from t [where model = "S ''sonar-reasoning-pro''" and strip = False]
    think_content think_citations think_succeeds(3) e
  have c: "reason py_str_stub default_runtime (reply think_body) both_keys (S ''q'') None False
        None Text
        = Inr [StdoutEcho (S ''<think>a</think>b\<newline>\<newline>Citations:\<newline>[1] https://a'')]"
    by (simp add: think_block j)
  from citation_block_format [where urls = "[S ''https://a'']" and py_str = py_str_stub
      and data = surrogate_data and c = "S ''x'' @ [55296]" and st = both_keys
      and post = "reply surrogate_body" and requested = None and system = None
      and query = "S ''q''" and prov = Perplexity and rt = default_runtime
      and model = "S ''sonar-pro''"]
    surrogate_content surrogate_citations surrogate_succeeds
    surrogate_rejected [of "S ''x''" "citation_block [S ''https://a'']"]
  have x: "ask py_str_stub default_runtime (reply surrogate_body) both_keys (S ''q'') None None
        Text = Inl (Uncaught UnicodeEncodeError)"
    by simp
  from a b c x f think_content think_citations think_succeeds surrogate_content
    surrogate_citations surrogate_succeeds
  show ?thesis by simp
qed

subsection \<open>The structured envelope\<close>

text \<open>
  C10. In structured mode a successful \<open>ask\<close>, \<open>research\<close> or \<open>reason\<close> whose body has a
  non-empty list of citation URLs puts the citations out twice: the \<open>response\<close> field of
  the envelope is the response text with the (non-empty) citation block appended, and the
  \<open>citations\<close> field is the list of the same URLs. That envelope is the record written
  whenever \<open>orjson.dumps\<close> serialises it; when it raises, the invocation is no success and
  ends with JSONEncodeError, with nothing written.
\<close>

theorem json_envelope_repeats_citations:
  assumes "chat_content data = Inr (JStr c)"
    and "py_get data (S ''citations'') (JArr []) = Inr (JArr (map JStr urls))"
    and "urls \<noteq> []"
  shows "citation_block urls \<noteq> []
    \<and> (chat_succeeds st post (S ''ask'') requested system query prov model data \<longrightarrow>
         ask py_str rt post st query system requested Json =
           (let envelope = chat_envelope (c @ citation_block urls)
                             (body_field data (S ''model'') (JStr model)) prov
                             (JArr (map JStr urls)) (body_field data (S ''usage'') JNull)
            in if orjson_dumps_ok rt envelope then Inr [StdoutJson envelope]
               else Inl (Uncaught JSONEncodeError)))
    \<and> (chat_succeeds st post (S ''research'') requested system query prov model data \<longrightarrow>
         research py_str rt post st query system strip requested Json =
           (let envelope = chat_envelope
                             ((if strip then strip_thinking c else c) @ citation_block urls)
                             (body_field data (S ''model'') (JStr model)) prov
                             (JArr (map JStr urls)) (body_field data (S ''usage'') JNull)
            in if orjson_dumps_ok rt envelope then Inr [StdoutJson envelope]
               else Inl (Uncaught JSONEncodeError)))
    \<and> (chat_succeeds st post (S ''reason'') requested system query prov model data \<longrightarrow>
         reason py_str rt post st query system strip requested Json =
           (let envelope = chat_envelope
                             ((if strip then strip_thinking c else c) @ citation_block urls)
                             (body_field data (S ''model'') (JStr model)) prov
                             (JArr (map JStr urls)) (body_field data (S ''usage'') JNull)
            in if orjson_dumps_ok rt envelope then Inr [StdoutJson envelope]
               else Inl (Uncaught JSONEncodeError)))"
proof -
  from assms(2) obtain kvs where d: "data = JObj kvs" using py_get_dict by blast
  note f = format_citations_strs [of py_str urls]
  have j: "chat_output py_str rt Json response_text data model prov (JArr (map JStr urls)) =
             (let envelope = chat_envelope response_text
                               (body_field data (S ''model'') (JStr model)) prov
                               (JArr (map JStr urls)) (body_field data (S ''usage'') JNull)
              in if orjson_dumps_ok rt envelope then Inr [StdoutJson envelope]
                 else Inl (Uncaught JSONEncodeError))" for response_text
    unfolding d body_field_def by (simp add: chat_output_json)
  from assms(3) have "citation_block urls \<noteq> []"
    by (simp add: citation_block_def S_def)
  then show ?thesis
    using ask_success [OF _ assms(1,2) f] research_success [OF _ assms(1,2) f]
      reason_success [OF _ assms(1,2) f] j
    by (simp add: bind_Inr)
qed

theorem json_envelope_repeats_citations_witness:
  "chat_content think_data = Inr (JStr (S ''<think>a</think>b''))
   \<and> py_get think_data (S ''citations'') (JArr []) = Inr (JArr (map JStr [S ''https://a'']))
   \<and> [S ''https://a''] \<noteq> []
   \<and> chat_succeeds both_keys (reply think_body) (S ''ask'') None None (S ''q'')
        Perplexity (S ''sonar-pro'') think_data
   \<and> ask py_str_stub default_runtime (reply think_body) both_keys (S ''q'') None None Json
        = Inr [StdoutJson
                 (chat_envelope (S ''<think>a</think>b\<newline>\<newline>Citations:\<newline>[1] https://a'')
                    (JStr (S ''sonar-pro'')) Perplexity (JArr [JStr (S ''https://a'')]) JNull)]
   \<and> chat_succeeds both_keys (reply think_body) (S ''research'') None None (S ''q'')
        Perplexity (S ''sonar-deep-research'') think_data
   \<and> research py_str_stub default_runtime (reply think_body) both_keys (S ''q'') None True None
        Json
        = Inr [StdoutJson
                 (chat_envelope (S ''b\<newline>\<newline>Citations:\<newline>[1] https://a'')
                    (JStr (S ''sonar-deep-research'')) Perplexity (JArr [JStr (S ''https://a'')])
                    JNull)]
   \<and> chat_succeeds both_keys (reply think_body) (S ''reason'') None None (S ''q'')
        Perplexity (S ''sonar-reasoning-pro'') think_data
   \<and> reason py_str_stub default_runtime (reply think_body) both_keys (S ''q'') None True None
        Json
        = Inr [StdoutJson
                 (chat_envelope (S ''b\<newline>\<newline>Citations:\<newline>[1] https://a'')
                    (JStr (S ''sonar-reasoning-pro'')) Perplexity (JArr [JStr (S ''https://a'')])
                    JNull)]
   \<and> chat_content big_usage_data = Inr (JStr (S ''x''))
   \<and> py_get big_usage_data (S ''citations'') (JArr []) = Inr (JArr (map JStr [S ''https://a'']))
   \<and> chat_succeeds both_keys (reply big_usage_body) (S ''ask'') None None (S ''q'')
        Perplexity (S ''sonar-pro'') big_usage_data
   \<and> ask py_str_stub default_runtime (reply big_usage_body) both_keys (S ''q'') None None Json
        = Inl (Uncaught JSONEncodeError)
   \<and> chat_content surrogate_data = Inr (JStr (S ''x'' @ [55296]))
   \<and> chat_succeeds both_keys (reply surrogate_body) (S ''ask'') None None (S ''q'')
        Perplexity (S ''sonar-pro'') surrogate_data
   \<and> ask py_str_stub default_runtime (reply surrogate_body) both_keys (S ''q'') None None Json
        = Inl (Uncaught JSONEncodeError)"
proof -
  have n: "[S ''https://a''] \<noteq> []" by simp
  have m: "body_field think_data (S ''model'') (JStr x) = JStr x"
    "body_field think_data (S ''usage'') JNull = JNull" for x
    by (simp_all add: body_field_def field_or_def think_data_def S_def)
  have j: "S ''<think>a</think>b'' @ S ''\<newline>\<newline>Citations:\<newline>[1] https://a''
             = S ''<think>a</think>b\<newline>\<newline>Citations:\<newline>[1] https://a''"
    "S ''b'' @ S ''\<newline>\<newline>Citations:\<newline>[1] https://a'' = S ''b\<newline>\<newline>Citations:\<newline>[1] https://a''"
    by (simp_all add: S_def)
  have o: "orjson_dumps_ok default_runtime
             (chat_envelope (S ''<think>a</think>b\<newline>\<newline>Citations:\<newline>[1] https://a'')
                (JStr (S s)) Perplexity (JArr [JStr (S ''https://a'')]) JNull)"
    "orjson_dumps_ok default_runtime
             (chat_envelope (S ''b\<newline>\<newline>Citations:\<newline>[1] https://a'')
                (JStr (S s)) Perplexity (JArr [JStr (S ''https://a'')]) JNull)" for s
    by (simp_all add: chat_envelope_def orjson_dumps_ok_def provider_value_def
          default_runtime_def S_valid_utf8)
  note t = json_envelope_repeats_citations [OF think_content think_citations n,
      where st = both_keys and post = "reply think_body" and requested = None
      and system = None and query = "S ''q''" and prov = Perplexity and py_str = py_str_stub
      and strip = True and rt = default_runtime]
  from t [where model = "S ''sonar-pro''"] think_succeeds(1) o [of "''sonar-pro''"]
  have a: "ask py_str_stub default_runtime (reply think_body) both_keys (S ''q'') None None Json
        = Inr [StdoutJson
                 (chat_envelope (S ''<think>a</think>b\<newline>\<newline>Citations:\<newline>[1] https://a'')
                    (JStr (S ''sonar-pro'')) Perplexity (JArr [JStr (S ''https://a'')]) JNull)]"
    by (simp add: m j think_block)
  from t [where model = "S ''sonar-deep-research''"] think_succeeds(2)
    o [of "''sonar-deep-research''"]
  have b: "research py_str_stub default_runtime (reply think_body) both_keys (S ''q'') None True
        None Json
        = Inr [StdoutJson
                 (chat_envelope (S ''b\<newline>\<newline>Citations:\<newline>[1] https://a'')
                    (JStr (S ''sonar-deep-research'')) Perplexity (JArr [JStr (S ''https://a'')])
                    JNull)]"
    by (simp add: m j think_block think_stripped)
  from t [where model = "S ''sonar-reasoning-pro''"] think_succeeds(3)
    o [of "''sonar-reasoning-pro''"]
  have c: "reason py_str_stub default_runtime (reply think_body) both_keys (S ''q'') None True
        None Json
        = Inr [StdoutJson
                 (chat_envelope (S ''b\<newline>\<newline>Citations:\<newline>[1] https://a'')
                    (JStr (S ''sonar-reasoning-pro'')) Perplexity (JArr [JStr (S ''https://a'')])
                    JNull)]"
    by (simp add: m j think_block think_stripped)
  from json_envelope_repeats_citations [OF big_usage_content big_usage_citations n,
      where st = both_keys and post = "reply big_usage_body" and requested = None
      and system = None and query = "S ''q''" and prov = Perplexity and py_str = py_str_stub
      and rt = default_runtime and model = "S ''sonar-pro''"] big_usage_succeeds
  have u: "ask py_str_stub default_runtime (reply big_usage_body) both_keys (S ''q'') None None
        Json = Inl (Uncaught JSONEncodeError)"
    by (simp add: chat_envelope_def orjson_dumps_ok_def body_field_def field_or_def
          big_usage_data_def S_def)
  from json_envelope_repeats_citations [OF surrogate_content surrogate_citations n,
      where st = both_keys and post = "reply surrogate_body" and requested = None
      and system = None and query = "S ''q''" and prov = Perplexity and py_str = py_str_stub
      and rt = default_runtime and model = "S ''sonar-pro''"] surrogate_succeeds
  have x: "ask py_str_stub default_runtime (reply surrogate_body) both_keys (S ''q'') None None
        Json = Inl (Uncaught JSONEncodeError)"
    by (simp add: chat_envelope_def orjson_dumps_ok_def valid_utf8_def is_surrogate_def)
  from a b c u x n think_content think_citations think_succeeds big_usage_content
    big_usage_citations big_usage_succeeds surrogate_content surrogate_succeeds
  show ?thesis by simp
qed

section \<open>The text listing of search\<close>

text \<open>
  C8, as the claim states it, fails: the title of a result is printed between the bold
  markers \<open>**\<close>, and a line with the number of results comes first.
\<close>

theorem search_titles_are_bold:
  "search py_str_stub default_runtime (reply one_result) both_keys (S ''q'') 10 1024 None Text
     = Inr [StdoutEcho
              (S ''Found 1 search results:\<newline>\<newline>1. **T**\<newline>   URL: https://u\<newline>'')]
   \<and> search py_str_stub default_runtime (reply one_result) both_keys (S ''q'') 10 1024 None Text
     \<noteq> Inr [StdoutEcho
              (S ''Found 1 search results:\<newline>\<newline>1. T\<newline>   URL: https://u\<newline>'')]"
  by (simp add: search_def one_result_def one_result_data_def one_result_dict_def eval_example)

text \<open>
  C8, amended. In text mode a search success without results prints exactly
  \<open>No results found.\<close>. With results (each a dict) it prints the line
  \<open>Found n search results:\<close>, an empty line, and for the i-th result, counted from 1: the
  line \<open>i. **title**\<close> with the title between bold markers (\<open>Untitled\<close> when the key is
  missing), the line of the URL, the snippet line and the date line when present, and an
  empty line; the lines are joined by newlines. In both cases that text is printed when
  stdout encodes it; when it does not, the command ends with UnicodeEncodeError and prints
  nothing.
\<close>

theorem search_text_rendering:
  assumes "api_key st Perplexity \<noteq> []"
    and "search_request post st query max_results max_tokens_per_page country
           (perplexity_timeout_ms st) = Inr data"
    and "py_get data (S ''results'') (JArr []) = Inr results"
  shows "(\<not> py_truthy results \<longrightarrow>
            search py_str rt post st query max_results max_tokens_per_page country Text
              = (if stdout_encodes rt (S ''No results found.'')
                 then Inr [StdoutEcho (S ''No results found.'')]
                 else Inl (Uncaught UnicodeEncodeError)))
    \<and> (results = JArr (map JObj dicts) \<and> dicts \<noteq> [] \<longrightarrow>
            search py_str rt post st query max_results max_tokens_per_page country Text
              = (let listing =
                       py_join (S ''\<newline>'')
                         ((S ''Found '' @ str_nat (length dicts) @ S '' search results:\<newline>'')
                          # concat (map (\<lambda>(i, kvs). entry_block py_str i kvs)
                                        (enumerate 1 dicts)))
                 in if stdout_encodes rt listing then Inr [StdoutEcho listing]
                    else Inl (Uncaught UnicodeEncodeError)))"
  using search_success [OF assms]
  by (simp add: bind_Inr search_lines_dicts echo_def Let_def)

theorem search_text_rendering_witness:
  "api_key both_keys Perplexity \<noteq> []
   \<and> search_request (reply no_results) both_keys (S ''q'') 10 1024 None
        (perplexity_timeout_ms both_keys) = Inr (JObj [(S ''results'', JArr [])])
   \<and> py_get (JObj [(S ''results'', JArr [])]) (S ''results'') (JArr []) = Inr (JArr [])
   \<and> \<not> py_truthy (JArr [])
   \<and> search py_str_stub default_runtime (reply no_results) both_keys (S ''q'') 10 1024 None Text
        = Inr [StdoutEcho (S ''No results found.'')]
   \<and> search_request (reply one_result) both_keys (S ''q'') 10 1024 None
        (perplexity_timeout_ms both_keys) = Inr one_result_data
   \<and> py_get one_result_data (S ''results'') (JArr [])
        = Inr (JArr (map JObj [one_result_dict]))
   \<and> [one_result_dict] \<noteq> []
   \<and> search py_str_stub default_runtime (reply one_result) both_keys (S ''q'') 10 1024 None Text
        = Inr [StdoutEcho
                 (S ''Found 1 search results:\<newline>\<newline>1. **T**\<newline>   URL: https://u\<newline>'')]
   \<and> search_request (reply surrogate_result) both_keys (S ''q'') 10 1024 None
        (perplexity_timeout_ms both_keys) = Inr surrogate_result_data
   \<and> py_get surrogate_result_data (S ''results'') (JArr [])
        = Inr (JArr (map JObj [surrogate_result_dict]))
   \<and> [surrogate_result_dict] \<noteq> []
   \<and> search py_str_stub default_runtime (reply surrogate_result) both_keys (S ''q'') 10 1024 None
        Text = Inl (Uncaught UnicodeEncodeError)"
proof -
  have g: "py_get (JObj [(S ''results'', JArr [])]) (S ''results'') (JArr []) = Inr (JArr [])"
    by simp
  from search_text_rendering [OF both_keys_perplexity no_results_request g,
      where py_str = py_str_stub and rt = default_runtime]
  have a: "search py_str_stub default_runtime (reply no_results) both_keys (S ''q'') 10 1024 None
        Text = Inr [StdoutEcho (S ''No results found.'')]"
    by (simp add: default_runtime_def valid_utf8_def is_surrogate_def S_def)
  from search_text_rendering [OF both_keys_perplexity one_result_request one_result_results,
      where py_str = py_str_stub and rt = default_runtime and dicts = "[one_result_dict]"]
  have b: "search py_str_stub default_runtime (reply one_result) both_keys (S ''q'') 10 1024 None
        Text
        = Inr [StdoutEcho
                 (S ''Found 1 search results:\<newline>\<newline>1. **T**\<newline>   URL: https://u\<newline>'')]"
    by (simp add: entry_block_def field_or_def fmt_value_def enumerate_eq_zip str_nat.simps
          one_result_dict_def default_runtime_def valid_utf8_def is_surrogate_def S_def)
  from search_text_rendering [OF both_keys_perplexity surrogate_result_request
      surrogate_result_results,
      where py_str = py_str_stub and rt = default_runtime and dicts = "[surrogate_result_dict]"]
  have c: "search py_str_stub default_runtime (reply surrogate_result) both_keys (S ''q'') 10 1024
        None Text = Inl (Uncaught UnicodeEncodeError)"
    by (simp add: entry_block_def field_or_def fmt_value_def enumerate_eq_zip str_nat.simps
          surrogate_result_dict_def default_runtime_def valid_utf8_def is_surrogate_def S_def)
  from a b c g both_keys_perplexity no_results_request one_result_request one_result_results
    surrogate_result_request surrogate_result_results
  show ?thesis by simp
qed

end
